theory Spec2Isabelle
  imports Complex_Main
begin

section \<open>Python values\<close>

text \<open>
  The analyser, \<^verbatim>\<open>HARPerformanceAnalyzer\<close> of \<^verbatim>\<open>analysis.py\<close>, works on the decoded
  JSON of a HAR file. A Python \<^verbatim>\<open>str\<close> is a \<^typ>\<open>string\<close> holding its UTF-8 bytes:
  every test the code makes on a string (\<^verbatim>\<open>in\<close>, \<^verbatim>\<open>endswith\<close>, \<^verbatim>\<open>split\<close>, \<^verbatim>\<open>==\<close>) has an
  ASCII or a whole-literal argument, and gives the same answer on the bytes as on the code
  points. A number is a \<^typ>\<open>rat\<close>, the exact value of a Python number: an integer is a
  Python \<^verbatim>\<open>int\<close>, any other value a Python \<^verbatim>\<open>float\<close>.
\<close>

subsection \<open>Floats\<close>

text \<open>
  A Python \<^verbatim>\<open>float\<close> is an IEEE 754 binary64 number: a multiple of a power of two, with a
  significand of 53 bits. \<open>double q\<close> is the binary64 number nearest to \<open>q\<close>, a tie going
  to the even significand: what \<^verbatim>\<open>json.load\<close> gives for the literal \<open>q\<close>, and the result of
  a float operation whose exact result is \<open>q\<close>. Magnitudes beyond the range of binary64
  (infinities) are not modelled. A float whose value is an integer is not told apart from
  the \<^verbatim>\<open>int\<close> of that value: the two give the same values in every operation below as
  long as operands and results stay under \<open>2 ^ 53\<close> in magnitude, and beyond that the
  number is taken as the \<^verbatim>\<open>int\<close>.
\<close>

text \<open>\<^verbatim>\<open>n.bit_length()\<close> of an integer that is not negative\<close>

function bit_length :: "int \<Rightarrow> int" where
  "bit_length n = (if n \<le> 0 then 0 else 1 + bit_length (n div 2))"
  by pat_completeness auto
termination
  by (relation "measure nat") auto

declare bit_length.simps [simp del]

text \<open>The exponent \<open>e\<close> with \<open>2 ^ e \<le> a < 2 ^ (e + 1)\<close>, for \<open>a > 0\<close>\<close>

definition floor_log2 :: "rat \<Rightarrow> int" where
  "floor_log2 a =
     (if 1 \<le> a then bit_length \<lfloor>a\<rfloor> - 1 else - bit_length (\<lceil>1 / a\<rceil> - 1))"

definition pow2 :: "int \<Rightarrow> rat" where
  "pow2 e = (if 0 \<le> e then 2 ^ nat e else 1 / 2 ^ nat (- e))"

text \<open>The nearest integer, a tie going to the even one\<close>

definition round_half_even :: "rat \<Rightarrow> int" where
  "round_half_even y =
     (let f = \<lfloor>y\<rfloor>; d = y - of_int f in
      if d < 1 / 2 then f else if 1 / 2 < d then f + 1 else if even f then f else f + 1)"

text \<open>
  The spacing of the binary64 numbers around \<open>q\<close> is \<open>2 ^ (e - 52)\<close> for the exponent
  \<open>e\<close> of \<open>q\<close>, and \<open>2 ^ - 1074\<close> below \<open>2 ^ - 1022\<close>.
\<close>

definition double :: "rat \<Rightarrow> rat" where
  "double q =
     (if q = 0 then 0
      else (let a = \<bar>q\<bar>;
                e = max (floor_log2 a) (- 1022);
                ulp = pow2 (e - 52)
            in sgn q * of_int (round_half_even (a / ulp)) * ulp))"

type_synonym number = rat

definition is_int :: "number \<Rightarrow> bool" where
  "is_int x = (of_int \<lfloor>x\<rfloor> = x)"

text \<open>
  The Python number that \<^verbatim>\<open>json.load\<close> gives for a number of the file: the \<^verbatim>\<open>int\<close> for
  an integer, the nearest float for any other literal.
\<close>

definition json_number :: "rat \<Rightarrow> number" where
  "json_number q = (if is_int q then q else double q)"

text \<open>
  \<^verbatim>\<open>x + y\<close>, \<^verbatim>\<open>x - y\<close> and \<^verbatim>\<open>x / y\<close>: exact on two \<^verbatim>\<open>int\<close>s but for the division, which
  gives the nearest float; with a float, the operation of binary64 on the operands as
  floats. The code divides by the constants 1024 and 1000 only.
\<close>

definition py_add :: "number \<Rightarrow> number \<Rightarrow> number" where
  "py_add x y = (if is_int x \<and> is_int y then x + y else double (double x + double y))"


definition py_truediv :: "number \<Rightarrow> number \<Rightarrow> number" where
  "py_truediv x y =
     (if is_int x \<and> is_int y then double (x / y) else double (double x / double y))"

text \<open>
  \<^verbatim>\<open>round(x, 2)\<close>. An \<^verbatim>\<open>int\<close> is returned as it is. For a float, Python takes the
  multiple of 1/100 nearest to the exact value of the float, a tie going to the even
  one, and returns the float nearest to that; a float that is an integer is its own
  result.
\<close>

definition round2 :: "number \<Rightarrow> number" where
  "round2 x =
     (if is_int x then x else double (of_int (round_half_even (double x * 100)) / 100))"

datatype pyval = Num number | Str string

datatype exn = KeyError string | IndexError | ValueError | Failure string

subsection \<open>String operations\<close>

fun startswith :: "string \<Rightarrow> string \<Rightarrow> bool" where
  "startswith s [] = True"
| "startswith [] (p # ps) = False"
| "startswith (c # cs) (p # ps) = (c = p \<and> startswith cs ps)"

definition endswith :: "string \<Rightarrow> string \<Rightarrow> bool" where
  "endswith s suffix = startswith (rev s) (rev suffix)"

text \<open>\<^verbatim>\<open>sub in s\<close>\<close>

fun str_in :: "string \<Rightarrow> string \<Rightarrow> bool" where
  "str_in sub [] = (sub = [])"
| "str_in sub (c # cs) = (startswith (c # cs) sub \<or> str_in sub cs)"

text \<open>
  \<^verbatim>\<open>s.lower()\<close> on the ASCII letters. Python also lowers letters beyond ASCII; of those only
  U+212A (to \<^verbatim>\<open>k\<close>) and U+0130 (to \<^verbatim>\<open>i\<close> and U+0307) give an ASCII letter, and neither can
  complete one of the suffixes tested below.
\<close>

definition lower_char :: "char \<Rightarrow> char" where
  "lower_char c =
     (case map_of (zip ''ABCDEFGHIJKLMNOPQRSTUVWXYZ'' ''abcdefghijklmnopqrstuvwxyz'') c of
        None \<Rightarrow> c
      | Some l \<Rightarrow> l)"

definition lower :: "string \<Rightarrow> string" where
  "lower s = map lower_char s"

text \<open>\<^verbatim>\<open>s.endswith((a, b, ...))\<close> with a tuple of suffixes\<close>

definition endswith_any :: "string \<Rightarrow> string list \<Rightarrow> bool" where
  "endswith_any s suffixes = list_ex (endswith s) suffixes"

section \<open>Resource classification\<close>

definition type_image :: string where
  \<comment> \<open>resource type label: image: U+56FE U+7247\<close>
  "type_image = [CHR 0xE5, CHR 0x9B, CHR 0xBE, CHR 0xE7, CHR 0x89, CHR 0x87]"

definition type_font :: string where
  \<comment> \<open>resource type label: font: U+5B57 U+4F53\<close>
  "type_font = [CHR 0xE5, CHR 0xAD, CHR 0x97, CHR 0xE4, CHR 0xBD, CHR 0x93]"

definition type_json :: string where
  \<comment> \<open>resource type label: JSON interface: JSON U+63A5 U+53E3\<close>
  "type_json = ''JSON'' @ [CHR 0xE6, CHR 0x8E, CHR 0xA5, CHR 0xE5, CHR 0x8F, CHR 0xA3]"

definition type_video :: string where
  \<comment> \<open>resource type label: video: U+89C6 U+9891\<close>
  "type_video = [CHR 0xE8, CHR 0xA7, CHR 0x86, CHR 0xE9, CHR 0xA2, CHR 0x91]"

definition type_other :: string where
  \<comment> \<open>resource type label: other: U+5176 U+4ED6\<close>
  "type_other = [CHR 0xE5, CHR 0x85, CHR 0xB6, CHR 0xE4, CHR 0xBB, CHR 0x96]"

text \<open>\<^verbatim>\<open>_get_resource_type(url, content_type)\<close>; the content type may be \<^verbatim>\<open>None\<close>.\<close>

definition get_resource_type :: "string \<Rightarrow> string option \<Rightarrow> string" where
  "get_resource_type url content_type0 =
     (let content_type = (case content_type0 of None \<Rightarrow> [] | Some c \<Rightarrow> c) in
      if str_in ''text/html'' content_type then ''HTML''
      else if str_in ''text/css'' content_type then ''CSS''
      else if str_in ''application/javascript'' content_type
              \<or> str_in ''text/javascript'' content_type then ''JS''
      else if str_in ''image/'' content_type then type_image
      else if str_in ''font/'' content_type \<or> str_in ''application/font'' content_type
           then type_font
      else if str_in ''application/json'' content_type \<or> endswith url ''.json''
           then type_json
      else if str_in ''video/'' content_type then type_video
      else if endswith_any (lower url) [''.js'', ''.jsx'', ''.ts'', ''.tsx''] then ''JS''
      else if endswith (lower url) ''.css'' then ''CSS''
      else if endswith_any (lower url)
                [''.jpg'', ''.jpeg'', ''.png'', ''.gif'', ''.svg'', ''.webp'']
           then type_image
      else if endswith_any (lower url) [''.woff'', ''.woff2'', ''.ttf'', ''.eot'']
           then type_font
      else type_other)"

text \<open>The eight labels the classifier can return.\<close>

definition resource_types :: "string list" where
  "resource_types =
     [''HTML'', ''CSS'', ''JS'', type_image, type_font, type_json, type_video, type_other]"

section \<open>Labels of the request table\<close>

definition label_yes :: string where
  \<comment> \<open>the label yes: U+662F\<close>
  "label_yes = [CHR 0xE6, CHR 0x98, CHR 0xAF]"

definition label_no :: string where
  \<comment> \<open>the label no: U+5426\<close>
  "label_no = [CHR 0xE5, CHR 0x90, CHR 0xA6]"

definition col_index :: string where
  \<comment> \<open>column sequence number: U+5E8F U+53F7\<close>
  "col_index = [CHR 0xE5, CHR 0xBA, CHR 0x8F, CHR 0xE5, CHR 0x8F, CHR 0xB7]"

definition col_url :: string where
  \<comment> \<open>column resource URL: U+8D44 U+6E90 URL\<close>
  "col_url = [CHR 0xE8, CHR 0xB5, CHR 0x84, CHR 0xE6, CHR 0xBA, CHR 0x90] @ ''URL''"

definition col_type :: string where
  \<comment> \<open>column resource type: U+8D44 U+6E90 U+7C7B U+578B\<close>
  "col_type = [CHR 0xE8, CHR 0xB5, CHR 0x84, CHR 0xE6, CHR 0xBA, CHR 0x90, CHR 0xE7,
     CHR 0xB1, CHR 0xBB, CHR 0xE5, CHR 0x9E, CHR 0x8B]"

definition col_method :: string where
  \<comment> \<open>column request method: U+8BF7 U+6C42 U+65B9 U+6CD5\<close>
  "col_method = [CHR 0xE8, CHR 0xAF, CHR 0xB7, CHR 0xE6, CHR 0xB1, CHR 0x82, CHR 0xE6,
     CHR 0x96, CHR 0xB9, CHR 0xE6, CHR 0xB3, CHR 0x95]"

definition col_status :: string where
  \<comment> \<open>column status code: U+72B6 U+6001 U+7801\<close>
  "col_status = [CHR 0xE7, CHR 0x8A, CHR 0xB6, CHR 0xE6, CHR 0x80, CHR 0x81, CHR 0xE7,
     CHR 0xA0, CHR 0x81]"

definition col_domain :: string where
  \<comment> \<open>column domain name: U+57DF U+540D\<close>
  "col_domain = [CHR 0xE5, CHR 0x9F, CHR 0x9F, CHR 0xE5, CHR 0x90, CHR 0x8D]"

definition col_total :: string where
  \<comment> \<open>column total time: U+603B U+8017 U+65F6 (ms)\<close>
  "col_total = [CHR 0xE6, CHR 0x80, CHR 0xBB, CHR 0xE8, CHR 0x80, CHR 0x97, CHR 0xE6,
     CHR 0x97, CHR 0xB6] @ ''(ms)''"

definition col_dns :: string where
  \<comment> \<open>column DNS resolution (DNS U+89E3 U+6790 (ms)): DNS U+89E3 U+6790
     (ms)\<close>
  "col_dns = ''DNS'' @ [CHR 0xE8, CHR 0xA7, CHR 0xA3, CHR 0xE6, CHR 0x9E, CHR 0x90] @
     ''(ms)''"

definition col_tcp :: string where
  \<comment> \<open>column TCP connect (TCP U+8FDE U+63A5 (ms)): TCP U+8FDE U+63A5
     (ms)\<close>
  "col_tcp = ''TCP'' @ [CHR 0xE8, CHR 0xBF, CHR 0x9E, CHR 0xE6, CHR 0x8E, CHR 0xA5] @
     ''(ms)''"

definition col_ssl :: string where
  \<comment> \<open>column SSL handshake (SSL U+63E1 U+624B (ms)): SSL U+63E1 U+624B
     (ms)\<close>
  "col_ssl = ''SSL'' @ [CHR 0xE6, CHR 0x8F, CHR 0xA1, CHR 0xE6, CHR 0x89, CHR 0x8B] @
     ''(ms)''"

definition col_send :: string where
  \<comment> \<open>column request send: U+8BF7 U+6C42 U+53D1 U+9001 (ms)\<close>
  "col_send = [CHR 0xE8, CHR 0xAF, CHR 0xB7, CHR 0xE6, CHR 0xB1, CHR 0x82, CHR 0xE5,
     CHR 0x8F, CHR 0x91, CHR 0xE9, CHR 0x80, CHR 0x81] @ ''(ms)''"

definition col_wait :: string where
  \<comment> \<open>column server wait: U+670D U+52A1 U+5668 U+7B49 U+5F85 (ms)\<close>
  "col_wait = [CHR 0xE6, CHR 0x9C, CHR 0x8D, CHR 0xE5, CHR 0x8A, CHR 0xA1, CHR 0xE5,
     CHR 0x99, CHR 0xA8, CHR 0xE7, CHR 0xAD, CHR 0x89, CHR 0xE5, CHR 0xBE, CHR 0x85] @
     ''(ms)''"

definition col_receive :: string where
  \<comment> \<open>column response receive: U+54CD U+5E94 U+63A5 U+6536 (ms)\<close>
  "col_receive = [CHR 0xE5, CHR 0x93, CHR 0x8D, CHR 0xE5, CHR 0xBA, CHR 0x94, CHR 0xE6,
     CHR 0x8E, CHR 0xA5, CHR 0xE6, CHR 0x94, CHR 0xB6] @ ''(ms)''"

definition col_size :: string where
  \<comment> \<open>column resource size: U+8D44 U+6E90 U+5927 U+5C0F (KB)\<close>
  "col_size = [CHR 0xE8, CHR 0xB5, CHR 0x84, CHR 0xE6, CHR 0xBA, CHR 0x90, CHR 0xE5,
     CHR 0xA4, CHR 0xA7, CHR 0xE5, CHR 0xB0, CHR 0x8F] @ ''(KB)''"

definition col_slow :: string where
  \<comment> \<open>column slow resource mark: U+6162 U+8D44 U+6E90 U+6807 U+8BB0\<close>
  "col_slow = [CHR 0xE6, CHR 0x85, CHR 0xA2, CHR 0xE8, CHR 0xB5, CHR 0x84, CHR 0xE6,
     CHR 0xBA, CHR 0x90, CHR 0xE6, CHR 0xA0, CHR 0x87, CHR 0xE8, CHR 0xAE, CHR 0xB0]"

definition col_error :: string where
  \<comment> \<open>column is error request: U+662F U+5426 U+9519 U+8BEF U+8BF7
     U+6C42\<close>
  "col_error = [CHR 0xE6, CHR 0x98, CHR 0xAF, CHR 0xE5, CHR 0x90, CHR 0xA6, CHR 0xE9,
     CHR 0x94, CHR 0x99, CHR 0xE8, CHR 0xAF, CHR 0xAF, CHR 0xE8, CHR 0xAF, CHR 0xB7,
     CHR 0xE6, CHR 0xB1, CHR 0x82]"

section \<open>Request details\<close>

subsection \<open>Raw trace entries\<close>

text \<open>
  An entry of \<^verbatim>\<open>log.entries\<close>, as the file has it. Every key the code reads with
  \<^verbatim>\<open>.get(key, default)\<close> is an optional field: \<open>None\<close> is the absent key. A number is
  the literal of the file, which Python holds as \<open>json_number\<close> of it. The nested objects
  \<^verbatim>\<open>request\<close>, \<^verbatim>\<open>response\<close>, \<^verbatim>\<open>timings\<close> and \<^verbatim>\<open>content\<close> are optional too, the code
  reading them with the default \<^verbatim>\<open>{}\<close>. The field \<open>http_method\<close> is the key \<^verbatim>\<open>method\<close> of
  the request.
\<close>

record har_request =
  url :: "string option"
  http_method :: "string option"

record har_content =
  mimeType :: "string option"

record har_response =
  status :: "rat option"
  headersSize :: "rat option"
  bodySize :: "rat option"
  content :: "har_content option"

record har_timings =
  dns :: "rat option"
  connect :: "rat option"
  ssl :: "rat option"
  send :: "rat option"
  wait :: "rat option"
  receive :: "rat option"

record har_entry =
  request :: "har_request option"
  response :: "har_response option"
  timings :: "har_timings option"
  time :: "rat option"

text \<open>\<^verbatim>\<open>obj.get(key, default)\<close> where \<^verbatim>\<open>obj\<close> is itself \<^verbatim>\<open>parent.get(name, {})\<close>\<close>

definition get_field :: "'o option \<Rightarrow> ('o \<Rightarrow> 'v option) \<Rightarrow> 'v \<Rightarrow> 'v" where
  "get_field obj key dflt =
     (case obj of None \<Rightarrow> dflt
      | Some d \<Rightarrow> (case key d of None \<Rightarrow> dflt | Some v \<Rightarrow> v))"

text \<open>The same for a number of the file\<close>

definition get_number :: "'o option \<Rightarrow> ('o \<Rightarrow> rat option) \<Rightarrow> number \<Rightarrow> number" where
  "get_number obj key dflt = json_number (get_field obj key dflt)"

subsection \<open>Splitting and indexing\<close>

text \<open>\<^verbatim>\<open>s.split(sep)\<close>: the pieces between the occurrences of \<open>sep\<close>, found left to right.\<close>

fun split_from :: "string \<Rightarrow> string \<Rightarrow> string \<Rightarrow> string list" where
  "split_from sep piece [] = [piece]"
| "split_from sep piece (c # cs) =
     (if startswith (c # cs) sep
      then piece # split_from sep [] (drop (length sep - 1) cs)
      else split_from sep (piece @ [c]) cs)"

definition str_split :: "string \<Rightarrow> string \<Rightarrow> exn + string list" where
  "str_split s sep = (if sep = [] then Inl ValueError else Inr (split_from sep [] s))"

text \<open>\<^verbatim>\<open>xs[i]\<close>, a negative index counting from the end\<close>

definition getitem :: "'a list \<Rightarrow> int \<Rightarrow> exn + 'a" where
  "getitem xs i =
     (let j = (if i < 0 then i + int (length xs) else i) in
      if 0 \<le> j \<and> j < int (length xs) then Inr (xs ! nat j) else Inl IndexError)"

subsection \<open>Request records\<close>

text \<open>The dictionary appended to \<^verbatim>\<open>request_list\<close> for each entry, a field for each key.\<close>

record request_record =
  index :: nat
  resource_url :: string
  resource_type :: string
  request_method :: string
  status_code :: number
  domain :: string
  total_time :: number
  dns_time :: number
  tcp_time :: number
  ssl_time :: number
  send_time :: number
  wait_time :: number
  receive_time :: number
  total_size :: number
  is_slow :: string
  is_error :: string

text \<open>
  The domain of a URL: the \<^verbatim>\<open>try\<close> block of the loop, any exception giving
  \<^verbatim>\<open>"unknown"\<close>.
\<close>

definition extract_domain :: "string \<Rightarrow> string" where
  "extract_domain u =
     (case (if str_in ''//'' u
            then (case str_split u ''//'' of Inl e \<Rightarrow> Inl e
                  | Inr parts \<Rightarrow>
                 (case getitem parts (- 1) of Inl e \<Rightarrow> Inl e
                  | Inr rest \<Rightarrow>
                 (case str_split rest ''/'' of Inl e \<Rightarrow> Inl e
                  | Inr segments \<Rightarrow> getitem segments 0)))
            else Inr ''unknown'')
      of Inl e \<Rightarrow> ''unknown'' | Inr d \<Rightarrow> d)"

text \<open>
  \<^verbatim>\<open>timing.get(key, -1) if timing.get(key, -1) != -1 else 0\<close>: the value \<open>-1\<close> of a HAR
  file stands for a phase that does not apply.
\<close>

definition phase_time :: "har_timings option \<Rightarrow> (har_timings \<Rightarrow> rat option) \<Rightarrow> number" where
  "phase_time timing key =
     (if get_number timing key (- 1) \<noteq> - 1 then get_number timing key (- 1) else 0)"

text \<open>The body of the loop of \<^verbatim>\<open>analyze_request_details\<close>, for the entry numbered \<open>idx\<close>.\<close>

definition request_details :: "nat \<Rightarrow> har_entry \<Rightarrow> request_record" where
  "request_details idx entry =
     (let req = request entry;
          resp = response entry;
          timing = timings entry;
          u = get_field req url [];
          dom = extract_domain u;
          dns_t = phase_time timing dns;
          tcp_t = phase_time timing connect;
          ssl_t = phase_time timing ssl;
          send_t = phase_time timing send;
          wait_t = phase_time timing wait;
          receive_t = phase_time timing receive;
          total_t = json_number (case time entry of None \<Rightarrow> 0 | Some t \<Rightarrow> t);
          headers_size = get_number resp headersSize 0;
          body_size = get_number resp bodySize 0;
          size = (if py_add headers_size body_size > 0
                  then py_truediv (py_add headers_size body_size) 1024 else 0);
          slow = (if total_t > 500 then label_yes else label_no)
      in \<lparr> index = idx,
           resource_url = u,
           resource_type =
             get_resource_type u
               (Some (get_field (case resp of None \<Rightarrow> None | Some r \<Rightarrow> content r)
                  mimeType [])),
           request_method = get_field req http_method [],
           status_code = get_number resp status 0,
           domain = dom,
           total_time = round2 total_t,
           dns_time = round2 dns_t,
           tcp_time = round2 tcp_t,
           ssl_time = round2 ssl_t,
           send_time = round2 send_t,
           wait_time = round2 wait_t,
           receive_time = round2 receive_t,
           total_size = round2 size,
           is_slow = slow,
           is_error = (if get_number resp status 0 \<ge> 400 then label_yes else label_no) \<rparr>)"

text \<open>\<^verbatim>\<open>for idx, entry in enumerate(self.entries, 1): ... request_list.append({...})\<close>\<close>

fun request_loop :: "nat \<Rightarrow> har_entry list \<Rightarrow> request_record list \<Rightarrow> request_record list" where
  "request_loop idx [] request_list = request_list"
| "request_loop idx (entry # entries) request_list =
     request_loop (Suc idx) entries (request_list @ [request_details idx entry])"

subsection \<open>Data frames\<close>

text \<open>
  A \<^verbatim>\<open>pandas.DataFrame\<close> of request records: its column labels and its rows.
  \<^verbatim>\<open>pd.DataFrame(request_list)\<close> takes the column labels from the keys of the
  dictionaries, so the frame of the empty list has no column.
\<close>

record DataFrame =
  columns :: "string list"
  rows :: "request_record list"

definition request_columns :: "string list" where
  "request_columns =
     [col_index, col_url, col_type, col_method, col_status, col_domain, col_total, col_dns,
      col_tcp, col_ssl, col_send, col_wait, col_receive, col_size, col_slow, col_error]"

definition pd_DataFrame :: "request_record list \<Rightarrow> DataFrame" where
  "pd_DataFrame request_list =
     \<lparr> columns = (if request_list = [] then [] else request_columns),
       rows = request_list \<rparr>"

definition analyze_request_details :: "har_entry list \<Rightarrow> DataFrame" where
  "analyze_request_details entries = pd_DataFrame (request_loop 1 entries [])"

section \<open>Labels of the page timings\<close>



definition key_dom_ready :: string where
  \<comment> \<open>key DOM ready time: DOM U+5C31 U+7EEA U+65F6 U+95F4 (ms)\<close>
  "key_dom_ready = ''DOM'' @ [CHR 0xE5, CHR 0xB0, CHR 0xB1, CHR 0xE7, CHR 0xBB, CHR 0xAA,
     CHR 0xE6, CHR 0x97, CHR 0xB6, CHR 0xE9, CHR 0x97, CHR 0xB4] @ ''(ms)''"

definition key_load :: string where
  \<comment> \<open>key page fully loaded time: U+9875 U+9762 U+5B8C U+5168 U+52A0 U+8F7D
     U+65F6 U+95F4 (ms)\<close>
  "key_load = [CHR 0xE9, CHR 0xA1, CHR 0xB5, CHR 0xE9, CHR 0x9D, CHR 0xA2, CHR 0xE5,
     CHR 0xAE, CHR 0x8C, CHR 0xE5, CHR 0x85, CHR 0xA8, CHR 0xE5, CHR 0x8A, CHR 0xA0,
     CHR 0xE8, CHR 0xBD, CHR 0xBD, CHR 0xE6, CHR 0x97, CHR 0xB6, CHR 0xE9, CHR 0x97,
     CHR 0xB4] @ ''(ms)''"

definition key_fcp :: string where
  \<comment> \<open>key first contentful paint: U+9996 U+6B21 U+5185 U+5BB9 U+7ED8 U+5236
     FCP(ms)\<close>
  "key_fcp = [CHR 0xE9, CHR 0xA6, CHR 0x96, CHR 0xE6, CHR 0xAC, CHR 0xA1, CHR 0xE5,
     CHR 0x86, CHR 0x85, CHR 0xE5, CHR 0xAE, CHR 0xB9, CHR 0xE7, CHR 0xBB, CHR 0x98,
     CHR 0xE5, CHR 0x88, CHR 0xB6] @ ''FCP(ms)''"



definition unavailable :: string where
  \<comment> \<open>the value unavailable: U+4E0D U+53EF U+7528\<close>
  "unavailable = [CHR 0xE4, CHR 0xB8, CHR 0x8D, CHR 0xE5, CHR 0x8F, CHR 0xAF, CHR 0xE7,
     CHR 0x94, CHR 0xA8]"



definition not_captured :: string where
  \<comment> \<open>the value not captured: U+672A U+6355 U+83B7\<close>
  "not_captured = [CHR 0xE6, CHR 0x9C, CHR 0xAA, CHR 0xE6, CHR 0x8D, CHR 0x95, CHR 0xE8,
     CHR 0x8E, CHR 0xB7]"

section \<open>Page timings\<close>

text \<open>A Python dictionary with string keys, in insertion order.\<close>

type_synonym 'v dict = "(string \<times> 'v) list"

text \<open>\<^verbatim>\<open>d.get(key, default)\<close>\<close>

definition dict_get :: "'v dict \<Rightarrow> string \<Rightarrow> 'v \<Rightarrow> 'v" where
  "dict_get d key dflt = (case map_of d key of None \<Rightarrow> dflt | Some v \<Rightarrow> v)"






section \<open>Labels of the summary\<close>

definition metric_total_requests :: string where
  \<comment> \<open>metric total number of requests: U+603B U+8BF7 U+6C42 U+6570\<close>
  "metric_total_requests = [CHR 0xE6, CHR 0x80, CHR 0xBB, CHR 0xE8, CHR 0xAF, CHR 0xB7,
     CHR 0xE6, CHR 0xB1, CHR 0x82, CHR 0xE6, CHR 0x95, CHR 0xB0]"

definition metric_slow :: string where
  \<comment> \<open>metric number of slow resources: U+6162 U+8D44 U+6E90 U+6570
     (>500ms)\<close>
  "metric_slow = [CHR 0xE6, CHR 0x85, CHR 0xA2, CHR 0xE8, CHR 0xB5, CHR 0x84, CHR 0xE6,
     CHR 0xBA, CHR 0x90, CHR 0xE6, CHR 0x95, CHR 0xB0] @ ''(>500ms)''"

definition metric_errors :: string where
  \<comment> \<open>metric number of error requests: U+9519 U+8BEF U+8BF7 U+6C42 U+6570
     (4xx/5xx)\<close>
  "metric_errors = [CHR 0xE9, CHR 0x94, CHR 0x99, CHR 0xE8, CHR 0xAF, CHR 0xAF, CHR 0xE8,
     CHR 0xAF, CHR 0xB7, CHR 0xE6, CHR 0xB1, CHR 0x82, CHR 0xE6, CHR 0x95, CHR 0xB0] @
     ''(4xx/5xx)''"

definition metric_avg_time :: string where
  \<comment> \<open>metric average request time: U+5E73 U+5747 U+8BF7 U+6C42 U+8017 U+65F6
     (ms)\<close>
  "metric_avg_time = [CHR 0xE5, CHR 0xB9, CHR 0xB3, CHR 0xE5, CHR 0x9D, CHR 0x87, CHR 0xE8,
     CHR 0xAF, CHR 0xB7, CHR 0xE6, CHR 0xB1, CHR 0x82, CHR 0xE8, CHR 0x80, CHR 0x97,
     CHR 0xE6, CHR 0x97, CHR 0xB6] @ ''(ms)''"

definition metric_type_dist :: string where
  \<comment> \<open>metric resource type distribution: U+8D44 U+6E90 U+7C7B U+578B U+5206
     U+5E03\<close>
  "metric_type_dist = [CHR 0xE8, CHR 0xB5, CHR 0x84, CHR 0xE6, CHR 0xBA, CHR 0x90, CHR 0xE7,
     CHR 0xB1, CHR 0xBB, CHR 0xE5, CHR 0x9E, CHR 0x8B, CHR 0xE5, CHR 0x88, CHR 0x86,
     CHR 0xE5, CHR 0xB8, CHR 0x83]"

definition metric_domain_dist :: string where
  \<comment> \<open>metric domain distribution: U+57DF U+540D U+5206 U+5E03\<close>
  "metric_domain_dist = [CHR 0xE5, CHR 0x9F, CHR 0x9F, CHR 0xE5, CHR 0x90, CHR 0x8D,
     CHR 0xE5, CHR 0x88, CHR 0x86, CHR 0xE5, CHR 0xB8, CHR 0x83]"

definition metric_top3 :: string where
  \<comment> \<open>metric the three slowest resources: U+8017 U+65F6 Top3 U+8D44
     U+6E90\<close>
  "metric_top3 = [CHR 0xE8, CHR 0x80, CHR 0x97, CHR 0xE6, CHR 0x97, CHR 0xB6] @ ''Top3'' @
     [CHR 0xE8, CHR 0xB5, CHR 0x84, CHR 0xE6, CHR 0xBA, CHR 0x90]"

definition no_data :: string where
  \<comment> \<open>the value no data: U+65E0 U+6570 U+636E\<close>
  "no_data = [CHR 0xE6, CHR 0x97, CHR 0xA0, CHR 0xE6, CHR 0x95, CHR 0xB0, CHR 0xE6,
     CHR 0x8D, CHR 0xAE]"

definition count_unit :: string where
  \<comment> \<open>the counting word after a number: U+4E2A\<close>
  "count_unit = [CHR 0xE4, CHR 0xB8, CHR 0xAA]"

section \<open>Summary\<close>

subsection \<open>The operations of pandas used by the summary\<close>

text \<open>\<^verbatim>\<open>df[label]\<close>: the values of a column, \<^verbatim>\<open>KeyError\<close> when the frame has no such column\<close>

definition df_column :: "DataFrame \<Rightarrow> string \<Rightarrow> (request_record \<Rightarrow> 'a) \<Rightarrow> exn + 'a list" where
  "df_column df label field =
     (if label \<in> set (columns df) then Inr (map field (rows df)) else Inl (KeyError label))"

text \<open>\<^verbatim>\<open>len(df[df[label] == value])\<close>\<close>

definition count_equal ::
  "DataFrame \<Rightarrow> string \<Rightarrow> (request_record \<Rightarrow> string) \<Rightarrow> string \<Rightarrow> exn + nat" where
  "count_equal df label field v =
     (case df_column df label field of Inl e \<Rightarrow> Inl e
      | Inr column \<Rightarrow> Inr (length (filter (\<lambda>x. x = v) column)))"

text \<open>
  \<^verbatim>\<open>series.value_counts().to_dict()\<close>: each value with the number of its occurrences, the
  most frequent first; values of equal count are kept in the order of their first
  occurrence.
\<close>

definition value_counts :: "string list \<Rightarrow> nat dict" where
  "value_counts xs =
     sort_key (\<lambda>(v, n). - int n) (map (\<lambda>v. (v, count_list xs v)) (rev (remdups (rev xs))))"

text \<open>
  \<^verbatim>\<open>df.nlargest(n, label)[label2].tolist()\<close>: the rows of the \<open>n\<close> greatest values, greatest
  first, the earlier row first among equal values.
\<close>

definition nlargest ::
  "nat \<Rightarrow> DataFrame \<Rightarrow> string \<Rightarrow> (request_record \<Rightarrow> number) \<Rightarrow> exn + request_record list" where
  "nlargest n df label field =
     (if label \<in> set (columns df)
      then Inr (take n (sort_key (\<lambda>r. - field r) (rows df)))
      else Inl (KeyError label))"

subsection \<open>Rendering\<close>

text \<open>\<^verbatim>\<open>str(n)\<close> of a natural number\<close>

fun str_nat :: "nat \<Rightarrow> string" where
  "str_nat n =
     (if n < 10 then [''0123456789'' ! n]
      else str_nat (n div 10) @ [''0123456789'' ! (n mod 10)])"

text \<open>\<^verbatim>\<open>sep.join(parts)\<close>\<close>

fun join :: "string \<Rightarrow> string list \<Rightarrow> string" where
  "join sep [] = []"
| "join sep [p] = p"
| "join sep (p # q # ps) = p @ sep @ join sep (q # ps)"

text \<open>
  \<^verbatim>\<open>s[-n:]\<close>, the last \<open>n\<close> characters. A character is a code point: a byte of the UTF-8
  text followed by its continuation bytes, those from \<open>0x80\<close> to \<open>0xBF\<close>.
\<close>

definition continuation :: "char \<Rightarrow> bool" where
  "continuation c = (128 \<le> (of_char c :: nat) \<and> (of_char c :: nat) < 192)"

function code_points :: "string \<Rightarrow> string list" where
  "code_points [] = []"
| "code_points (c # cs) =
     (c # takeWhile continuation cs) # code_points (dropWhile continuation cs)"
  by pat_completeness auto
termination
  by (relation "measure length") (auto simp: length_dropWhile_le less_Suc_eq_le)

definition last_chars :: "nat \<Rightarrow> string \<Rightarrow> string" where
  "last_chars n s = concat (drop (length (code_points s) - n) (code_points s))"

text \<open>\<^verbatim>\<open>"; ".join([f"{k}: {v}\<close>\<open>count_unit\<close>\<^verbatim>\<open>" for k, v in dist.items()]) if dist else\<close> \<open>no_data\<close>\<close>

definition render_dist :: "nat dict \<Rightarrow> string" where
  "render_dist counts =
     (if counts \<noteq> []
      then join ''; '' (map (\<lambda>(k, v). k @ '': '' @ str_nat v @ count_unit) counts)
      else no_data)"

text \<open>\<^verbatim>\<open>url.split('?')[0][-50:]\<close>\<close>

definition short_url :: "string \<Rightarrow> string" where
  "short_url u = last_chars 50 (hd (split_from ''?'' [] u))"

subsection \<open>The summary table\<close>

text \<open>
  The frame built from \<^verbatim>\<open>summary_data\<close>: a row is the name of a metric and its value.
\<close>

type_synonym summary = "(string \<times> pyval) list"

text \<open>
  The mean of a column is computed by pandas on a \<^verbatim>\<open>numpy\<close> array, and
  \<^verbatim>\<open>round(avg_total_time, 2)\<close> of the mean is computed by the number type of
  \<^verbatim>\<open>numpy\<close>. Neither library is part of the repository, and both results depend on how
  the library orders its float operations: \<open>mean\<close> stands for \<^verbatim>\<open>series.mean()\<close> on a
  column that is not empty, \<open>np_round2\<close> for \<^verbatim>\<open>round(x, 2)\<close> on its result, and both are
  parameters. On the empty frame \<^verbatim>\<open>avg_total_time\<close> is the \<^verbatim>\<open>int\<close> 0, which Python
  rounds.
\<close>

definition generate_summary ::
  "(number list \<Rightarrow> number) \<Rightarrow> (number \<Rightarrow> number) \<Rightarrow> DataFrame \<Rightarrow> pyval dict
   \<Rightarrow> exn + summary" where
  "generate_summary mean np_round2 request_df page_timings =
     (let total_requests = length (rows request_df) in
      case count_equal request_df col_slow is_slow label_yes of Inl e \<Rightarrow> Inl e
      | Inr slow_requests \<Rightarrow>
     (case count_equal request_df col_error is_error label_yes of Inl e \<Rightarrow> Inl e
      | Inr error_requests \<Rightarrow>
     (case (if length (rows request_df) > 0
            then (case df_column request_df col_total total_time of Inl e \<Rightarrow> Inl e
                  | Inr column \<Rightarrow> Inr (np_round2 (mean column)))
            else Inr (round2 0))
      of Inl e \<Rightarrow> Inl e
      | Inr avg_total_time_rounded \<Rightarrow>
     (case df_column request_df col_type resource_type of Inl e \<Rightarrow> Inl e
      | Inr types \<Rightarrow>
     (case df_column request_df col_domain domain of Inl e \<Rightarrow> Inl e
      | Inr domains \<Rightarrow>
     (case nlargest 3 request_df col_total total_time of Inl e \<Rightarrow> Inl e
      | Inr slowest \<Rightarrow>
     (if col_url \<in> set (columns request_df)
      then
        (let resource_dist_str = render_dist (value_counts types);
             domain_dist_str = render_dist (value_counts domains);
             top3_slow = map resource_url slowest;
             top3_slow_str =
               (if top3_slow \<noteq> [] then join ''; '' (map short_url top3_slow) else no_data)
         in Inr [(metric_total_requests, Num (of_nat total_requests)),
                 (metric_slow, Num (of_nat slow_requests)),
                 (metric_errors, Num (of_nat error_requests)),
                 (metric_avg_time, Num avg_total_time_rounded),
                 (key_load, dict_get page_timings key_load (Num 0)),
                 (key_dom_ready, dict_get page_timings key_dom_ready (Num 0)),
                 (key_fcp, dict_get page_timings key_fcp (Str not_captured)),
                 (metric_type_dist, Str resource_dist_str),
                 (metric_domain_dist, Str domain_dist_str),
                 (metric_top3, Str top3_slow_str)])
      else Inl (KeyError col_url))))))))"

section \<open>Texts of the bottleneck findings\<close>

definition kind_slow :: string where
  \<comment> \<open>bottleneck type too many slow resources: U+6162 U+8D44 U+6E90 U+8FC7
     U+591A\<close>
  "kind_slow = [CHR 0xE6, CHR 0x85, CHR 0xA2, CHR 0xE8, CHR 0xB5, CHR 0x84, CHR 0xE6,
     CHR 0xBA, CHR 0x90, CHR 0xE8, CHR 0xBF, CHR 0x87, CHR 0xE5, CHR 0xA4, CHR 0x9A]"

definition slow_before :: string where
  \<comment> \<open>description of rule 1 before the value: U+5171 U+5B58 U+5728\<close>
  "slow_before = [CHR 0xE5, CHR 0x85, CHR 0xB1, CHR 0xE5, CHR 0xAD, CHR 0x98, CHR 0xE5,
     CHR 0x9C, CHR 0xA8]"

definition slow_after :: string where
  \<comment> \<open>description of rule 1 after the value: U+4E2A U+52A0 U+8F7D U+8017
     U+65F6 U+8D85 U+8FC7 500ms U+7684 U+8D44 U+6E90 , U+5F71 U+54CD U+9875 U+9762 U+52A0
     U+8F7D U+901F U+5EA6\<close>
  "slow_after = [CHR 0xE4, CHR 0xB8, CHR 0xAA, CHR 0xE5, CHR 0x8A, CHR 0xA0, CHR 0xE8,
     CHR 0xBD, CHR 0xBD, CHR 0xE8, CHR 0x80, CHR 0x97, CHR 0xE6, CHR 0x97, CHR 0xB6,
     CHR 0xE8, CHR 0xB6, CHR 0x85, CHR 0xE8, CHR 0xBF, CHR 0x87] @ ''500ms'' @ [CHR 0xE7,
     CHR 0x9A, CHR 0x84, CHR 0xE8, CHR 0xB5, CHR 0x84, CHR 0xE6, CHR 0xBA, CHR 0x90] @ '',''
     @ [CHR 0xE5, CHR 0xBD, CHR 0xB1, CHR 0xE5, CHR 0x93, CHR 0x8D, CHR 0xE9, CHR 0xA1,
     CHR 0xB5, CHR 0xE9, CHR 0x9D, CHR 0xA2, CHR 0xE5, CHR 0x8A, CHR 0xA0, CHR 0xE8,
     CHR 0xBD, CHR 0xBD, CHR 0xE9, CHR 0x80, CHR 0x9F, CHR 0xE5, CHR 0xBA, CHR 0xA6]"

definition advice_slow :: string where
  \<comment> \<open>advice of rule 1: 1. U+538B U+7F29 U+56FE U+7247 U+8D44 U+6E90 ( U+4F7F
     U+7528 TinyPNG);2. U+5BF9 JS/CSS U+8FDB U+884C U+4EE3 U+7801 U+5206 U+5272 U+548C
     U+61D2 U+52A0 U+8F7D ;3. U+542F U+7528 CDN U+52A0 U+901F U+9759 U+6001 U+8D44 U+6E90
     ;4. U+4F18 U+5316 U+670D U+52A1 U+5668 U+54CD U+5E94 U+65F6 U+95F4\<close>
  "advice_slow = ''1. '' @ [CHR 0xE5, CHR 0x8E, CHR 0x8B, CHR 0xE7, CHR 0xBC, CHR 0xA9,
     CHR 0xE5, CHR 0x9B, CHR 0xBE, CHR 0xE7, CHR 0x89, CHR 0x87, CHR 0xE8, CHR 0xB5,
     CHR 0x84, CHR 0xE6, CHR 0xBA, CHR 0x90] @ ''('' @ [CHR 0xE4, CHR 0xBD, CHR 0xBF,
     CHR 0xE7, CHR 0x94, CHR 0xA8] @ ''TinyPNG);2. '' @ [CHR 0xE5, CHR 0xAF, CHR 0xB9] @
     ''JS/CSS'' @ [CHR 0xE8, CHR 0xBF, CHR 0x9B, CHR 0xE8, CHR 0xA1, CHR 0x8C, CHR 0xE4,
     CHR 0xBB, CHR 0xA3, CHR 0xE7, CHR 0xA0, CHR 0x81, CHR 0xE5, CHR 0x88, CHR 0x86,
     CHR 0xE5, CHR 0x89, CHR 0xB2, CHR 0xE5, CHR 0x92, CHR 0x8C, CHR 0xE6, CHR 0x87,
     CHR 0x92, CHR 0xE5, CHR 0x8A, CHR 0xA0, CHR 0xE8, CHR 0xBD, CHR 0xBD] @ '';3. '' @
     [CHR 0xE5, CHR 0x90, CHR 0xAF, CHR 0xE7, CHR 0x94, CHR 0xA8] @ ''CDN'' @ [CHR 0xE5,
     CHR 0x8A, CHR 0xA0, CHR 0xE9, CHR 0x80, CHR 0x9F, CHR 0xE9, CHR 0x9D, CHR 0x99,
     CHR 0xE6, CHR 0x80, CHR 0x81, CHR 0xE8, CHR 0xB5, CHR 0x84, CHR 0xE6, CHR 0xBA,
     CHR 0x90] @ '';4. '' @ [CHR 0xE4, CHR 0xBC, CHR 0x98, CHR 0xE5, CHR 0x8C, CHR 0x96,
     CHR 0xE6, CHR 0x9C, CHR 0x8D, CHR 0xE5, CHR 0x8A, CHR 0xA1, CHR 0xE5, CHR 0x99,
     CHR 0xA8, CHR 0xE5, CHR 0x93, CHR 0x8D, CHR 0xE5, CHR 0xBA, CHR 0x94, CHR 0xE6,
     CHR 0x97, CHR 0xB6, CHR 0xE9, CHR 0x97, CHR 0xB4]"

definition kind_requests :: string where
  \<comment> \<open>bottleneck type too many requests: U+8BF7 U+6C42 U+6570 U+8FC7
     U+591A\<close>
  "kind_requests = [CHR 0xE8, CHR 0xAF, CHR 0xB7, CHR 0xE6, CHR 0xB1, CHR 0x82, CHR 0xE6,
     CHR 0x95, CHR 0xB0, CHR 0xE8, CHR 0xBF, CHR 0x87, CHR 0xE5, CHR 0xA4, CHR 0x9A]"

definition requests_before :: string where
  \<comment> \<open>description of rule 2 before the value: U+9875 U+9762 U+603B U+8BF7
     U+6C42 U+6570\<close>
  "requests_before = [CHR 0xE9, CHR 0xA1, CHR 0xB5, CHR 0xE9, CHR 0x9D, CHR 0xA2, CHR 0xE6,
     CHR 0x80, CHR 0xBB, CHR 0xE8, CHR 0xAF, CHR 0xB7, CHR 0xE6, CHR 0xB1, CHR 0x82,
     CHR 0xE6, CHR 0x95, CHR 0xB0]"

definition requests_after :: string where
  \<comment> \<open>description of rule 2 after the value: U+4E2A , U+8D85 U+8FC7 U+5408
     U+7406 U+9608 U+503C (80 U+4E2A ), U+589E U+52A0 U+7F51 U+7EDC U+5F00 U+9500\<close>
  "requests_after = [CHR 0xE4, CHR 0xB8, CHR 0xAA] @ '','' @ [CHR 0xE8, CHR 0xB6, CHR 0x85,
     CHR 0xE8, CHR 0xBF, CHR 0x87, CHR 0xE5, CHR 0x90, CHR 0x88, CHR 0xE7, CHR 0x90,
     CHR 0x86, CHR 0xE9, CHR 0x98, CHR 0x88, CHR 0xE5, CHR 0x80, CHR 0xBC] @ ''(80'' @
     [CHR 0xE4, CHR 0xB8, CHR 0xAA] @ ''),'' @ [CHR 0xE5, CHR 0xA2, CHR 0x9E, CHR 0xE5,
     CHR 0x8A, CHR 0xA0, CHR 0xE7, CHR 0xBD, CHR 0x91, CHR 0xE7, CHR 0xBB, CHR 0x9C,
     CHR 0xE5, CHR 0xBC, CHR 0x80, CHR 0xE9, CHR 0x94, CHR 0x80]"

definition advice_requests :: string where
  \<comment> \<open>advice of rule 2: 1. U+5408 U+5E76 JS/CSS U+6587 U+4EF6 ( U+4F7F U+7528
     Webpack U+6253 U+5305 );2. U+4F7F U+7528 U+56FE U+7247 U+96EA U+78A7 U+56FE (Sprite);3.
     U+51CF U+5C11 U+7B2C U+4E09 U+65B9 U+5E93 U+4F9D U+8D56 , U+6309 U+9700 U+5F15
     U+5165\<close>
  "advice_requests = ''1. '' @ [CHR 0xE5, CHR 0x90, CHR 0x88, CHR 0xE5, CHR 0xB9, CHR 0xB6]
     @ ''JS/CSS'' @ [CHR 0xE6, CHR 0x96, CHR 0x87, CHR 0xE4, CHR 0xBB, CHR 0xB6] @ ''('' @
     [CHR 0xE4, CHR 0xBD, CHR 0xBF, CHR 0xE7, CHR 0x94, CHR 0xA8] @ ''Webpack'' @ [CHR 0xE6,
     CHR 0x89, CHR 0x93, CHR 0xE5, CHR 0x8C, CHR 0x85] @ '');2. '' @ [CHR 0xE4, CHR 0xBD,
     CHR 0xBF, CHR 0xE7, CHR 0x94, CHR 0xA8, CHR 0xE5, CHR 0x9B, CHR 0xBE, CHR 0xE7,
     CHR 0x89, CHR 0x87, CHR 0xE9, CHR 0x9B, CHR 0xAA, CHR 0xE7, CHR 0xA2, CHR 0xA7,
     CHR 0xE5, CHR 0x9B, CHR 0xBE] @ ''(Sprite);3. '' @ [CHR 0xE5, CHR 0x87, CHR 0x8F,
     CHR 0xE5, CHR 0xB0, CHR 0x91, CHR 0xE7, CHR 0xAC, CHR 0xAC, CHR 0xE4, CHR 0xB8,
     CHR 0x89, CHR 0xE6, CHR 0x96, CHR 0xB9, CHR 0xE5, CHR 0xBA, CHR 0x93, CHR 0xE4,
     CHR 0xBE, CHR 0x9D, CHR 0xE8, CHR 0xB5, CHR 0x96] @ '','' @ [CHR 0xE6, CHR 0x8C,
     CHR 0x89, CHR 0xE9, CHR 0x9C, CHR 0x80, CHR 0xE5, CHR 0xBC, CHR 0x95, CHR 0xE5,
     CHR 0x85, CHR 0xA5]"

definition kind_errors :: string where
  \<comment> \<open>bottleneck type error requests: U+9519 U+8BEF U+8BF7 U+6C42\<close>
  "kind_errors = [CHR 0xE9, CHR 0x94, CHR 0x99, CHR 0xE8, CHR 0xAF, CHR 0xAF, CHR 0xE8,
     CHR 0xAF, CHR 0xB7, CHR 0xE6, CHR 0xB1, CHR 0x82]"

definition errors_before :: string where
  \<comment> \<open>description of rule 3 before the value: U+5B58 U+5728\<close>
  "errors_before = [CHR 0xE5, CHR 0xAD, CHR 0x98, CHR 0xE5, CHR 0x9C, CHR 0xA8]"

definition errors_after :: string where
  \<comment> \<open>description of rule 3 after the value: U+4E2A U+9519 U+8BEF U+8BF7
     U+6C42 , U+53EF U+80FD U+5BFC U+81F4 U+529F U+80FD U+5F02 U+5E38 U+6216 U+8D44 U+6E90
     U+52A0 U+8F7D U+5931 U+8D25\<close>
  "errors_after = [CHR 0xE4, CHR 0xB8, CHR 0xAA, CHR 0xE9, CHR 0x94, CHR 0x99, CHR 0xE8,
     CHR 0xAF, CHR 0xAF, CHR 0xE8, CHR 0xAF, CHR 0xB7, CHR 0xE6, CHR 0xB1, CHR 0x82] @ '',''
     @ [CHR 0xE5, CHR 0x8F, CHR 0xAF, CHR 0xE8, CHR 0x83, CHR 0xBD, CHR 0xE5, CHR 0xAF,
     CHR 0xBC, CHR 0xE8, CHR 0x87, CHR 0xB4, CHR 0xE5, CHR 0x8A, CHR 0x9F, CHR 0xE8,
     CHR 0x83, CHR 0xBD, CHR 0xE5, CHR 0xBC, CHR 0x82, CHR 0xE5, CHR 0xB8, CHR 0xB8,
     CHR 0xE6, CHR 0x88, CHR 0x96, CHR 0xE8, CHR 0xB5, CHR 0x84, CHR 0xE6, CHR 0xBA,
     CHR 0x90, CHR 0xE5, CHR 0x8A, CHR 0xA0, CHR 0xE8, CHR 0xBD, CHR 0xBD, CHR 0xE5,
     CHR 0xA4, CHR 0xB1, CHR 0xE8, CHR 0xB4, CHR 0xA5]"

definition advice_errors :: string where
  \<comment> \<open>advice of rule 3: 1. U+68C0 U+67E5 U+8D44 U+6E90 URL U+662F U+5426
     U+6B63 U+786E ;2. U+6392 U+67E5 U+63A5 U+53E3 U+670D U+52A1 U+72B6 U+6001 ;3. U+4FEE
     U+590D 4xx( U+8D44 U+6E90 U+4E0D U+5B58 U+5728 )/5xx( U+670D U+52A1 U+5668 U+9519
     U+8BEF ) U+95EE U+9898\<close>
  "advice_errors = ''1. '' @ [CHR 0xE6, CHR 0xA3, CHR 0x80, CHR 0xE6, CHR 0x9F, CHR 0xA5,
     CHR 0xE8, CHR 0xB5, CHR 0x84, CHR 0xE6, CHR 0xBA, CHR 0x90] @ ''URL'' @ [CHR 0xE6,
     CHR 0x98, CHR 0xAF, CHR 0xE5, CHR 0x90, CHR 0xA6, CHR 0xE6, CHR 0xAD, CHR 0xA3,
     CHR 0xE7, CHR 0xA1, CHR 0xAE] @ '';2. '' @ [CHR 0xE6, CHR 0x8E, CHR 0x92, CHR 0xE6,
     CHR 0x9F, CHR 0xA5, CHR 0xE6, CHR 0x8E, CHR 0xA5, CHR 0xE5, CHR 0x8F, CHR 0xA3,
     CHR 0xE6, CHR 0x9C, CHR 0x8D, CHR 0xE5, CHR 0x8A, CHR 0xA1, CHR 0xE7, CHR 0x8A,
     CHR 0xB6, CHR 0xE6, CHR 0x80, CHR 0x81] @ '';3. '' @ [CHR 0xE4, CHR 0xBF, CHR 0xAE,
     CHR 0xE5, CHR 0xA4, CHR 0x8D] @ ''4xx('' @ [CHR 0xE8, CHR 0xB5, CHR 0x84, CHR 0xE6,
     CHR 0xBA, CHR 0x90, CHR 0xE4, CHR 0xB8, CHR 0x8D, CHR 0xE5, CHR 0xAD, CHR 0x98,
     CHR 0xE5, CHR 0x9C, CHR 0xA8] @ '')/5xx('' @ [CHR 0xE6, CHR 0x9C, CHR 0x8D, CHR 0xE5,
     CHR 0x8A, CHR 0xA1, CHR 0xE5, CHR 0x99, CHR 0xA8, CHR 0xE9, CHR 0x94, CHR 0x99,
     CHR 0xE8, CHR 0xAF, CHR 0xAF] @ '')'' @ [CHR 0xE9, CHR 0x97, CHR 0xAE, CHR 0xE9,
     CHR 0xA2, CHR 0x98]"

definition kind_avg_time :: string where
  \<comment> \<open>bottleneck type average request time too high: U+5E73 U+5747 U+8BF7
     U+6C42 U+8017 U+65F6 U+8FC7 U+9AD8\<close>
  "kind_avg_time = [CHR 0xE5, CHR 0xB9, CHR 0xB3, CHR 0xE5, CHR 0x9D, CHR 0x87, CHR 0xE8,
     CHR 0xAF, CHR 0xB7, CHR 0xE6, CHR 0xB1, CHR 0x82, CHR 0xE8, CHR 0x80, CHR 0x97,
     CHR 0xE6, CHR 0x97, CHR 0xB6, CHR 0xE8, CHR 0xBF, CHR 0x87, CHR 0xE9, CHR 0xAB,
     CHR 0x98]"

definition avg_time_before :: string where
  \<comment> \<open>description of rule 4 before the value: U+5E73 U+5747 U+8BF7 U+6C42
     U+8017 U+65F6\<close>
  "avg_time_before = [CHR 0xE5, CHR 0xB9, CHR 0xB3, CHR 0xE5, CHR 0x9D, CHR 0x87, CHR 0xE8,
     CHR 0xAF, CHR 0xB7, CHR 0xE6, CHR 0xB1, CHR 0x82, CHR 0xE8, CHR 0x80, CHR 0x97,
     CHR 0xE6, CHR 0x97, CHR 0xB6]"

definition avg_time_after :: string where
  \<comment> \<open>description of rule 4 after the value: ms, U+8D85 U+8FC7 U+5408 U+7406
     U+9608 U+503C (300ms)\<close>
  "avg_time_after = ''ms,'' @ [CHR 0xE8, CHR 0xB6, CHR 0x85, CHR 0xE8, CHR 0xBF, CHR 0x87,
     CHR 0xE5, CHR 0x90, CHR 0x88, CHR 0xE7, CHR 0x90, CHR 0x86, CHR 0xE9, CHR 0x98,
     CHR 0x88, CHR 0xE5, CHR 0x80, CHR 0xBC] @ ''(300ms)''"

definition advice_avg_time :: string where
  \<comment> \<open>advice of rule 4: 1. U+4F18 U+5316 U+6570 U+636E U+5E93 U+67E5 U+8BE2 (
     U+6DFB U+52A0 U+7D22 U+5F15 );2. U+542F U+7528 U+670D U+52A1 U+5668 U+7F13 U+5B58
     (Redis);3. U+5347 U+7EA7 U+670D U+52A1 U+5668 U+5E26 U+5BBD ;4. U+91C7 U+7528 HTTP/2
     U+534F U+8BAE\<close>
  "advice_avg_time = ''1. '' @ [CHR 0xE4, CHR 0xBC, CHR 0x98, CHR 0xE5, CHR 0x8C, CHR 0x96,
     CHR 0xE6, CHR 0x95, CHR 0xB0, CHR 0xE6, CHR 0x8D, CHR 0xAE, CHR 0xE5, CHR 0xBA,
     CHR 0x93, CHR 0xE6, CHR 0x9F, CHR 0xA5, CHR 0xE8, CHR 0xAF, CHR 0xA2] @ ''('' @
     [CHR 0xE6, CHR 0xB7, CHR 0xBB, CHR 0xE5, CHR 0x8A, CHR 0xA0, CHR 0xE7, CHR 0xB4,
     CHR 0xA2, CHR 0xE5, CHR 0xBC, CHR 0x95] @ '');2. '' @ [CHR 0xE5, CHR 0x90, CHR 0xAF,
     CHR 0xE7, CHR 0x94, CHR 0xA8, CHR 0xE6, CHR 0x9C, CHR 0x8D, CHR 0xE5, CHR 0x8A,
     CHR 0xA1, CHR 0xE5, CHR 0x99, CHR 0xA8, CHR 0xE7, CHR 0xBC, CHR 0x93, CHR 0xE5,
     CHR 0xAD, CHR 0x98] @ ''(Redis);3. '' @ [CHR 0xE5, CHR 0x8D, CHR 0x87, CHR 0xE7,
     CHR 0xBA, CHR 0xA7, CHR 0xE6, CHR 0x9C, CHR 0x8D, CHR 0xE5, CHR 0x8A, CHR 0xA1,
     CHR 0xE5, CHR 0x99, CHR 0xA8, CHR 0xE5, CHR 0xB8, CHR 0xA6, CHR 0xE5, CHR 0xAE,
     CHR 0xBD] @ '';4. '' @ [CHR 0xE9, CHR 0x87, CHR 0x87, CHR 0xE7, CHR 0x94, CHR 0xA8] @
     ''HTTP/2'' @ [CHR 0xE5, CHR 0x8D, CHR 0x8F, CHR 0xE8, CHR 0xAE, CHR 0xAE]"

definition kind_fcp :: string where
  \<comment> \<open>bottleneck type first contentful paint too slow: U+9996 U+6B21 U+5185
     U+5BB9 U+7ED8 U+5236 (FCP) U+8FC7 U+6162\<close>
  "kind_fcp = [CHR 0xE9, CHR 0xA6, CHR 0x96, CHR 0xE6, CHR 0xAC, CHR 0xA1, CHR 0xE5,
     CHR 0x86, CHR 0x85, CHR 0xE5, CHR 0xAE, CHR 0xB9, CHR 0xE7, CHR 0xBB, CHR 0x98,
     CHR 0xE5, CHR 0x88, CHR 0xB6] @ ''(FCP)'' @ [CHR 0xE8, CHR 0xBF, CHR 0x87, CHR 0xE6,
     CHR 0x85, CHR 0xA2]"

definition fcp_before :: string where
  \<comment> \<open>description of rule 5 before the value: FCP U+8017 U+65F6\<close>
  "fcp_before = ''FCP'' @ [CHR 0xE8, CHR 0x80, CHR 0x97, CHR 0xE6, CHR 0x97, CHR 0xB6]"

definition fcp_after :: string where
  \<comment> \<open>description of rule 5 after the value: ms, U+8D85 U+8FC7 U+4F18 U+79C0
     U+9608 U+503C (1800ms), U+5F71 U+54CD U+7528 U+6237 U+9996 U+5C4F U+4F53 U+9A8C\<close>
  "fcp_after = ''ms,'' @ [CHR 0xE8, CHR 0xB6, CHR 0x85, CHR 0xE8, CHR 0xBF, CHR 0x87,
     CHR 0xE4, CHR 0xBC, CHR 0x98, CHR 0xE7, CHR 0xA7, CHR 0x80, CHR 0xE9, CHR 0x98,
     CHR 0x88, CHR 0xE5, CHR 0x80, CHR 0xBC] @ ''(1800ms),'' @ [CHR 0xE5, CHR 0xBD,
     CHR 0xB1, CHR 0xE5, CHR 0x93, CHR 0x8D, CHR 0xE7, CHR 0x94, CHR 0xA8, CHR 0xE6,
     CHR 0x88, CHR 0xB7, CHR 0xE9, CHR 0xA6, CHR 0x96, CHR 0xE5, CHR 0xB1, CHR 0x8F,
     CHR 0xE4, CHR 0xBD, CHR 0x93, CHR 0xE9, CHR 0xAA, CHR 0x8C]"

definition advice_fcp :: string where
  \<comment> \<open>advice of rule 5: 1. U+5185 U+8054 U+9996 U+5C4F U+5173 U+952E CSS;2.
     U+9884 U+52A0 U+8F7D U+6838 U+5FC3 HTML/JS;3. U+51CF U+5C11 U+9996 U+5C4F U+975E U+5FC5
     U+8981 U+8D44 U+6E90 ;4. U+4F18 U+5316 U+670D U+52A1 U+5668 U+54CD U+5E94 U+901F
     U+5EA6\<close>
  "advice_fcp = ''1. '' @ [CHR 0xE5, CHR 0x86, CHR 0x85, CHR 0xE8, CHR 0x81, CHR 0x94,
     CHR 0xE9, CHR 0xA6, CHR 0x96, CHR 0xE5, CHR 0xB1, CHR 0x8F, CHR 0xE5, CHR 0x85,
     CHR 0xB3, CHR 0xE9, CHR 0x94, CHR 0xAE] @ ''CSS;2. '' @ [CHR 0xE9, CHR 0xA2, CHR 0x84,
     CHR 0xE5, CHR 0x8A, CHR 0xA0, CHR 0xE8, CHR 0xBD, CHR 0xBD, CHR 0xE6, CHR 0xA0,
     CHR 0xB8, CHR 0xE5, CHR 0xBF, CHR 0x83] @ ''HTML/JS;3. '' @ [CHR 0xE5, CHR 0x87,
     CHR 0x8F, CHR 0xE5, CHR 0xB0, CHR 0x91, CHR 0xE9, CHR 0xA6, CHR 0x96, CHR 0xE5,
     CHR 0xB1, CHR 0x8F, CHR 0xE9, CHR 0x9D, CHR 0x9E, CHR 0xE5, CHR 0xBF, CHR 0x85,
     CHR 0xE8, CHR 0xA6, CHR 0x81, CHR 0xE8, CHR 0xB5, CHR 0x84, CHR 0xE6, CHR 0xBA,
     CHR 0x90] @ '';4. '' @ [CHR 0xE4, CHR 0xBC, CHR 0x98, CHR 0xE5, CHR 0x8C, CHR 0x96,
     CHR 0xE6, CHR 0x9C, CHR 0x8D, CHR 0xE5, CHR 0x8A, CHR 0xA1, CHR 0xE5, CHR 0x99,
     CHR 0xA8, CHR 0xE5, CHR 0x93, CHR 0x8D, CHR 0xE5, CHR 0xBA, CHR 0x94, CHR 0xE9,
     CHR 0x80, CHR 0x9F, CHR 0xE5, CHR 0xBA, CHR 0xA6]"

definition kind_none :: string where
  \<comment> \<open>bottleneck type no evident bottleneck: U+65E0 U+660E U+663E U+6027
     U+80FD U+74F6 U+9888\<close>
  "kind_none = [CHR 0xE6, CHR 0x97, CHR 0xA0, CHR 0xE6, CHR 0x98, CHR 0x8E, CHR 0xE6,
     CHR 0x98, CHR 0xBE, CHR 0xE6, CHR 0x80, CHR 0xA7, CHR 0xE8, CHR 0x83, CHR 0xBD,
     CHR 0xE7, CHR 0x93, CHR 0xB6, CHR 0xE9, CHR 0xA2, CHR 0x88]"

definition description_none :: string where
  \<comment> \<open>description when no rule fires: U+9875 U+9762 U+6027 U+80FD U+8868
     U+73B0 U+826F U+597D , U+5404 U+9879 U+6307 U+6807 U+5728 U+5408 U+7406 U+8303 U+56F4
     U+5185\<close>
  "description_none = [CHR 0xE9, CHR 0xA1, CHR 0xB5, CHR 0xE9, CHR 0x9D, CHR 0xA2, CHR 0xE6,
     CHR 0x80, CHR 0xA7, CHR 0xE8, CHR 0x83, CHR 0xBD, CHR 0xE8, CHR 0xA1, CHR 0xA8,
     CHR 0xE7, CHR 0x8E, CHR 0xB0, CHR 0xE8, CHR 0x89, CHR 0xAF, CHR 0xE5, CHR 0xA5,
     CHR 0xBD] @ '','' @ [CHR 0xE5, CHR 0x90, CHR 0x84, CHR 0xE9, CHR 0xA1, CHR 0xB9,
     CHR 0xE6, CHR 0x8C, CHR 0x87, CHR 0xE6, CHR 0xA0, CHR 0x87, CHR 0xE5, CHR 0x9C,
     CHR 0xA8, CHR 0xE5, CHR 0x90, CHR 0x88, CHR 0xE7, CHR 0x90, CHR 0x86, CHR 0xE8,
     CHR 0x8C, CHR 0x83, CHR 0xE5, CHR 0x9B, CHR 0xB4, CHR 0xE5, CHR 0x86, CHR 0x85]"

definition advice_none :: string where
  \<comment> \<open>advice when no rule fires: 1. U+6301 U+7EED U+76D1 U+63A7 U+8D44 U+6E90
     U+52A0 U+8F7D U+72B6 U+6001 ;2. U+5B9A U+671F U+6E05 U+7406 U+5197 U+4F59 U+8D44 U+6E90
     ;3. U+8DDF U+8FDB HTTP/3 U+7B49 U+65B0 U+534F U+8BAE U+4F18 U+5316\<close>
  "advice_none = ''1. '' @ [CHR 0xE6, CHR 0x8C, CHR 0x81, CHR 0xE7, CHR 0xBB, CHR 0xAD,
     CHR 0xE7, CHR 0x9B, CHR 0x91, CHR 0xE6, CHR 0x8E, CHR 0xA7, CHR 0xE8, CHR 0xB5,
     CHR 0x84, CHR 0xE6, CHR 0xBA, CHR 0x90, CHR 0xE5, CHR 0x8A, CHR 0xA0, CHR 0xE8,
     CHR 0xBD, CHR 0xBD, CHR 0xE7, CHR 0x8A, CHR 0xB6, CHR 0xE6, CHR 0x80, CHR 0x81] @
     '';2. '' @ [CHR 0xE5, CHR 0xAE, CHR 0x9A, CHR 0xE6, CHR 0x9C, CHR 0x9F, CHR 0xE6,
     CHR 0xB8, CHR 0x85, CHR 0xE7, CHR 0x90, CHR 0x86, CHR 0xE5, CHR 0x86, CHR 0x97,
     CHR 0xE4, CHR 0xBD, CHR 0x99, CHR 0xE8, CHR 0xB5, CHR 0x84, CHR 0xE6, CHR 0xBA,
     CHR 0x90] @ '';3. '' @ [CHR 0xE8, CHR 0xB7, CHR 0x9F, CHR 0xE8, CHR 0xBF, CHR 0x9B] @
     ''HTTP/3'' @ [CHR 0xE7, CHR 0xAD, CHR 0x89, CHR 0xE6, CHR 0x96, CHR 0xB0, CHR 0xE5,
     CHR 0x8D, CHR 0x8F, CHR 0xE8, CHR 0xAE, CHR 0xAE, CHR 0xE4, CHR 0xBC, CHR 0x98,
     CHR 0xE5, CHR 0x8C, CHR 0x96]"

section \<open>Bottlenecks\<close>

text \<open>
  A formatted string is kept as its parts: the literal text, and the values it embeds.
  How Python prints a number is not modelled.
\<close>

datatype fpart = Text string | Value pyval

text \<open>
  A row of the bottleneck table: \<open>kind\<close> is the bottleneck type, then the description and
  the optimisation advice.
\<close>

record finding =
  kind :: string
  description :: "fpart list"
  advice :: string

text \<open>The dictionaries appended by the five rules, and the one of the last block.\<close>

definition slow_finding :: "number \<Rightarrow> finding" where
  "slow_finding slow_count =
     \<lparr> kind = kind_slow,
       description = [Text slow_before, Value (Num slow_count), Text slow_after],
       advice = advice_slow \<rparr>"

definition requests_finding :: "number \<Rightarrow> finding" where
  "requests_finding total_requests =
     \<lparr> kind = kind_requests,
       description = [Text requests_before, Value (Num total_requests), Text requests_after],
       advice = advice_requests \<rparr>"

definition errors_finding :: "number \<Rightarrow> finding" where
  "errors_finding error_count =
     \<lparr> kind = kind_errors,
       description = [Text errors_before, Value (Num error_count), Text errors_after],
       advice = advice_errors \<rparr>"

definition avg_time_finding :: "number \<Rightarrow> finding" where
  "avg_time_finding avg_time =
     \<lparr> kind = kind_avg_time,
       description = [Text avg_time_before, Value (Num avg_time), Text avg_time_after],
       advice = advice_avg_time \<rparr>"

definition fcp_finding :: "number \<Rightarrow> finding" where
  "fcp_finding fcp =
     \<lparr> kind = kind_fcp,
       description = [Text fcp_before, Value (Num fcp), Text fcp_after],
       advice = advice_fcp \<rparr>"

definition no_bottleneck :: finding where
  "no_bottleneck =
     \<lparr> kind = kind_none, description = [Text description_none], advice = advice_none \<rparr>"

text \<open>
  \<^verbatim>\<open>dict(zip(summary[names], summary[values]))\<close>: of two rows with the same name the
  later one stays.
\<close>

definition dict_zip :: "summary \<Rightarrow> pyval dict" where
  "dict_zip summary = rev summary"

text \<open>
  \<^verbatim>\<open>identify_bottlenecks\<close>; the frame of the requests is not read. Every rule reads its
  metric with a default. Rule 1 tests \<^verbatim>\<open>isinstance(slow_count, str)\<close> and, in the
  \<^verbatim>\<open>elif\<close>, \<^verbatim>\<open>slow_count > 0\<close>. Rules 2 to 4 replace a string by 0 and then compare.
  Rule 5 asks for a number that is not the text \<open>not_captured\<close>.
\<close>

definition identify_bottlenecks :: "DataFrame \<Rightarrow> summary \<Rightarrow> finding list" where
  "identify_bottlenecks request_df summary =
     (let summary_dict = dict_zip summary;
          bottlenecks = [];
          slow_count = dict_get summary_dict metric_slow (Num 0);
          bottlenecks =
            (case slow_count of
               Str s \<Rightarrow> bottlenecks
             | Num n \<Rightarrow> if n > 0 then bottlenecks @ [slow_finding n] else bottlenecks);
          total_requests =
            (case dict_get summary_dict metric_total_requests (Num 0) of
               Str s \<Rightarrow> 0
             | Num n \<Rightarrow> n);
          bottlenecks =
            (if total_requests > 80 then bottlenecks @ [requests_finding total_requests]
             else bottlenecks);
          error_count =
            (case dict_get summary_dict metric_errors (Num 0) of Str s \<Rightarrow> 0 | Num n \<Rightarrow> n);
          bottlenecks =
            (if error_count > 0 then bottlenecks @ [errors_finding error_count]
             else bottlenecks);
          avg_time =
            (case dict_get summary_dict metric_avg_time (Num 0) of Str s \<Rightarrow> 0 | Num n \<Rightarrow> n);
          bottlenecks =
            (if avg_time > 300 then bottlenecks @ [avg_time_finding avg_time]
             else bottlenecks);
          fcp = dict_get summary_dict key_fcp (Str not_captured);
          bottlenecks =
            (case fcp of
               Str s \<Rightarrow> bottlenecks
             | Num n \<Rightarrow>
                 if fcp \<noteq> Str not_captured \<and> n > 1800 then bottlenecks @ [fcp_finding n]
                 else bottlenecks)
      in if bottlenecks = [] then [no_bottleneck] else bottlenecks)"

section \<open>Vocabulary of the properties\<close>




text \<open>
  The five rules of \<open>identify_bottlenecks\<close>, in the order of the code, each with the
  metric it reads, the threshold it compares with and the finding it appends.
\<close>

datatype rule = SlowRule | RequestsRule | ErrorsRule | AvgTimeRule | FcpRule

definition all_rules :: "rule list" where
  "all_rules = [SlowRule, RequestsRule, ErrorsRule, AvgTimeRule, FcpRule]"

fun rule_metric :: "rule \<Rightarrow> string" where
  "rule_metric SlowRule = metric_slow"
| "rule_metric RequestsRule = metric_total_requests"
| "rule_metric ErrorsRule = metric_errors"
| "rule_metric AvgTimeRule = metric_avg_time"
| "rule_metric FcpRule = key_fcp"

fun rule_threshold :: "rule \<Rightarrow> number" where
  "rule_threshold SlowRule = 0"
| "rule_threshold RequestsRule = 80"
| "rule_threshold ErrorsRule = 0"
| "rule_threshold AvgTimeRule = 300"
| "rule_threshold FcpRule = 1800"

fun rule_finding :: "rule \<Rightarrow> number \<Rightarrow> finding" where
  "rule_finding SlowRule = slow_finding"
| "rule_finding RequestsRule = requests_finding"
| "rule_finding ErrorsRule = errors_finding"
| "rule_finding AvgTimeRule = avg_time_finding"
| "rule_finding FcpRule = fcp_finding"

text \<open>The value a summary holds for a metric, \<open>None\<close> when it has no row of that name.\<close>

definition metric_value :: "summary \<Rightarrow> string \<Rightarrow> pyval option" where
  "metric_value s name = map_of (dict_zip s) name"

text \<open>
  What a rule appends for the value of its metric, and the findings of a list of rules
  on a summary. That \<open>identify_bottlenecks\<close> computes these is lemma
  \<open>identify_bottlenecks_rules\<close> below.
\<close>

definition fired :: "rule \<Rightarrow> pyval option \<Rightarrow> finding list" where
  "fired r v =
     (case v of
        Some (Num n) \<Rightarrow> if rule_threshold r < n then [rule_finding r n] else []
      | _ \<Rightarrow> [])"

definition rule_findings :: "summary \<Rightarrow> rule list \<Rightarrow> finding list" where
  "rule_findings s rs = concat (map (\<lambda>r. fired r (metric_value s (rule_metric r))) rs)"

section \<open>Auxiliary lemmas\<close>

subsection \<open>The loop over the entries\<close>

lemma request_loop_eq:
  "request_loop idx entries request_list =
     request_list @ map2 request_details [idx..<idx + length entries] entries"
proof (induction entries arbitrary: idx request_list)
  case Nil
  then show ?case by simp
next
  case (Cons entry entries)
  have "[idx..<idx + length (entry # entries)] = idx # [Suc idx..<Suc idx + length entries]"
    by (simp add: upt_conv_Cons del: upt_Suc)
  with Cons show ?case by (simp del: upt_Suc)
qed

lemma index_request_details: "index (request_details idx entry) = idx"
  by (simp add: request_details_def Let_def)

lemma rows_analyze:
  "rows (analyze_request_details entries) =
     map2 request_details [1..<Suc (length entries)] entries"
  by (simp add: analyze_request_details_def pd_DataFrame_def request_loop_eq del: upt_Suc)

lemma map_index_map2:
  "length is = length es \<Longrightarrow> map index (map2 request_details is es) = is"
  by (induction "is" es rule: list_induct2) (simp_all add: index_request_details)

subsection \<open>Rounding\<close>





lemma round2_int: "round2 (of_int n) = of_int n"
  by (simp add: round2_def is_int_def)

lemma round2_zero: "round2 0 = 0"
  using round2_int [of 0] by simp

subsection \<open>Phases\<close>





subsection \<open>The rules of the bottleneck analysis\<close>

lemma rule_metric_inj: "rule_metric r = rule_metric r' \<Longrightarrow> r = r'"
  by (cases r; cases r')
     (simp_all add: metric_slow_def metric_total_requests_def metric_errors_def
        metric_avg_time_def key_fcp_def)

lemma kind_rule_finding_inj: "kind (rule_finding r a) = kind (rule_finding r' b) \<Longrightarrow> r = r'"
  by (cases r; cases r')
     (simp_all add: slow_finding_def requests_finding_def errors_finding_def
        avg_time_finding_def fcp_finding_def kind_slow_def kind_requests_def kind_errors_def
        kind_avg_time_def kind_fcp_def)

lemma kind_rule_finding_not_none: "kind (rule_finding r a) \<noteq> kind_none"
  by (cases r)
     (simp_all add: slow_finding_def requests_finding_def errors_finding_def
        avg_time_finding_def fcp_finding_def kind_slow_def kind_requests_def kind_errors_def
        kind_avg_time_def kind_fcp_def kind_none_def)

lemma slow_step:
  "(case dict_get d metric_slow (Num 0) of
      Str s \<Rightarrow> bs
    | Num n \<Rightarrow> if n > 0 then bs @ [slow_finding n] else bs)
   = bs @ fired SlowRule (map_of d metric_slow)"
  by (simp add: fired_def dict_get_def split: option.split pyval.split)

lemma requests_step:
  "(if (case dict_get d metric_total_requests (Num 0) of Str s \<Rightarrow> 0 | Num n \<Rightarrow> n) > 80
    then bs @ [requests_finding
                 (case dict_get d metric_total_requests (Num 0) of Str s \<Rightarrow> 0 | Num n \<Rightarrow> n)]
    else bs)
   = bs @ fired RequestsRule (map_of d metric_total_requests)"
  by (simp add: fired_def dict_get_def split: option.split pyval.split)

lemma errors_step:
  "(if (case dict_get d metric_errors (Num 0) of Str s \<Rightarrow> 0 | Num n \<Rightarrow> n) > 0
    then bs @ [errors_finding
                 (case dict_get d metric_errors (Num 0) of Str s \<Rightarrow> 0 | Num n \<Rightarrow> n)]
    else bs)
   = bs @ fired ErrorsRule (map_of d metric_errors)"
  by (simp add: fired_def dict_get_def split: option.split pyval.split)

lemma avg_time_step:
  "(if (case dict_get d metric_avg_time (Num 0) of Str s \<Rightarrow> 0 | Num n \<Rightarrow> n) > 300
    then bs @ [avg_time_finding
                 (case dict_get d metric_avg_time (Num 0) of Str s \<Rightarrow> 0 | Num n \<Rightarrow> n)]
    else bs)
   = bs @ fired AvgTimeRule (map_of d metric_avg_time)"
  by (simp add: fired_def dict_get_def split: option.split pyval.split)

lemma fcp_step:
  "(case dict_get d key_fcp (Str not_captured) of
      Str s \<Rightarrow> bs
    | Num n \<Rightarrow>
        if dict_get d key_fcp (Str not_captured) \<noteq> Str not_captured \<and> n > 1800
        then bs @ [fcp_finding n] else bs)
   = bs @ fired FcpRule (map_of d key_fcp)"
  by (simp add: fired_def dict_get_def split: option.split pyval.split)

lemma identify_bottlenecks_fired:
  "identify_bottlenecks df s =
     (let bs = fired SlowRule (metric_value s metric_slow)
             @ fired RequestsRule (metric_value s metric_total_requests)
             @ fired ErrorsRule (metric_value s metric_errors)
             @ fired AvgTimeRule (metric_value s metric_avg_time)
             @ fired FcpRule (metric_value s key_fcp)
      in if bs = [] then [no_bottleneck] else bs)"
  unfolding identify_bottlenecks_def Let_def slow_step requests_step errors_step
    avg_time_step fcp_step metric_value_def
  by (simp only: append_Nil append_assoc)


lemma identify_bottlenecks_rules:
  "identify_bottlenecks df s =
     (if rule_findings s all_rules = [] then [no_bottleneck] else rule_findings s all_rules)"
  by (simp add: identify_bottlenecks_fired rule_findings_def all_rules_def Let_def)

lemma all_rules_complete: "r \<in> set all_rules"
  by (cases r) (simp_all add: all_rules_def)

lemma all_rules_distinct: "distinct all_rules"
  by (simp add: all_rules_def)

lemma fired_cases: "f \<in> set (fired r v) \<Longrightarrow> \<exists>n. f = rule_finding r n \<and> v = Some (Num n) \<and> rule_threshold r < n"
  by (auto simp: fired_def split: option.splits pyval.splits if_splits)

lemma rule_findings_cases:
  "f \<in> set (rule_findings s rs) \<Longrightarrow>
   \<exists>r n. r \<in> set rs \<and> f = rule_finding r n \<and> metric_value s (rule_metric r) = Some (Num n)
         \<and> rule_threshold r < n"
  unfolding rule_findings_def by (auto dest: fired_cases)

lemma rule_findings_append:
  "rule_findings s (xs @ ys) = rule_findings s xs @ rule_findings s ys"
  by (simp add: rule_findings_def)

lemma rule_findings_agree:
  assumes "\<forall>r \<in> set rs. metric_value s' (rule_metric r) = metric_value s (rule_metric r)"
  shows "rule_findings s' rs = rule_findings s rs"
  using assms by (induction rs) (simp_all add: rule_findings_def)

lemma rule_finding_not_none: "rule_finding r n \<noteq> no_bottleneck"
  using kind_rule_finding_not_none [of r n] by (auto simp: no_bottleneck_def)

lemma fired_below: "v = Some (Num n) \<Longrightarrow> n \<le> rule_threshold r \<Longrightarrow> fired r v = []"
  by (simp add: fired_def)

lemma fired_str: "fired r (Some (Str x)) = []"
  by (simp add: fired_def)

lemma fired_absent: "fired r None = []"
  by (simp add: fired_def)

lemma metric_value_get:
  "dict_get (dict_zip s) name dflt = (case metric_value s name of None \<Rightarrow> dflt | Some v \<Rightarrow> v)"
  by (simp add: dict_get_def metric_value_def)

lemma kind_no_bottleneck: "kind no_bottleneck = kind_none"
  by (simp add: no_bottleneck_def)

lemma kind_none_only:
  assumes "f \<in> set (identify_bottlenecks df s)" "kind f = kind_none"
  shows "identify_bottlenecks df s = [no_bottleneck]"
proof (rule ccontr)
  assume "identify_bottlenecks df s \<noteq> [no_bottleneck]"
  then have "identify_bottlenecks df s = rule_findings s all_rules"
    by (simp add: identify_bottlenecks_rules split: if_splits)
  with assms(1) obtain r n where "f = rule_finding r n"
    using rule_findings_cases by metis
  with assms(2) show False
    using kind_rule_finding_not_none by simp
qed

lemma rule_findings_same:
  assumes "\<forall>r \<in> set rs. fired r (metric_value s' (rule_metric r)) = fired r (metric_value s (rule_metric r))"
  shows "rule_findings s' rs = rule_findings s rs"
  using assms by (induction rs) (simp_all add: rule_findings_def)

lemma rule_threshold_nonneg: "0 \<le> rule_threshold r"
  by (cases r) simp_all

lemmas metric_names = metric_slow_def metric_total_requests_def metric_errors_def
  metric_avg_time_def key_fcp_def

subsection \<open>The summary of an empty frame\<close>

text \<open>
  On a frame that has the columns of the request table and no row, the guards of
  \<open>generate_summary\<close> for the empty case do their work: the counts and the mean are 0.
\<close>

lemma generate_summary_empty_with_columns:
  "generate_summary mean np_round2 \<lparr> columns = request_columns, rows = [] \<rparr> page_timings =
     Inr [(metric_total_requests, Num 0),
          (metric_slow, Num 0),
          (metric_errors, Num 0),
          (metric_avg_time, Num 0),
          (key_load, dict_get page_timings key_load (Num 0)),
          (key_dom_ready, dict_get page_timings key_dom_ready (Num 0)),
          (key_fcp, dict_get page_timings key_fcp (Str not_captured)),
          (metric_type_dist, Str no_data),
          (metric_domain_dist, Str no_data),
          (metric_top3, Str no_data)]"
  by (simp add: generate_summary_def count_equal_def df_column_def nlargest_def
      request_columns_def value_counts_def render_dist_def round2_zero)

section \<open>The properties\<close>

text \<open>
  Claim C1, on the empty list of request records. The frame that
  \<open>analyze_request_details\<close> builds for no entries has no column, and
  \<open>generate_summary\<close> raises \<^verbatim>\<open>KeyError\<close> at its first read of a column, before it
  reaches its test \<^verbatim>\<open>len(request_df) > 0\<close>.
\<close>

theorem generate_summary_no_entries:
  "generate_summary mean np_round2 (analyze_request_details []) page_timings =
     Inl (KeyError col_slow)"
  by (simp add: generate_summary_def analyze_request_details_def pd_DataFrame_def
      count_equal_def df_column_def)







text \<open>
  Claim C4. For every list of raw entries, \<open>analyze_request_details\<close> returns one request
  record for each entry, in the order of the entries, and the sequence numbers of the
  records are 1, 2, ... up to the number of entries.
\<close>

theorem analyze_request_details_indices:
  "length (rows (analyze_request_details entries)) = length entries
   \<and> map index (rows (analyze_request_details entries)) = [1..<Suc (length entries)]
   \<and> rows (analyze_request_details entries) =
       map2 request_details [1..<Suc (length entries)] entries"
proof -
  let ?is = "[1..<Suc (length entries)]"
  have len: "length ?is = length entries"
    by (simp del: upt_Suc)
  have "map index (map2 request_details ?is entries) = ?is"
    using len by (rule map_index_map2)
  then show ?thesis
    unfolding rows_analyze using len by (simp del: upt_Suc)
qed

text \<open>
  Claim C5, on a URL that has the separator \<^verbatim>\<open>//\<close> twice. The code takes the text after
  the last separator, so the domain recorded for a URL that carries another URL in its
  query is the host of the inner URL.
\<close>

theorem domain_of_nested_url:
  "domain (request_details 1
     \<lparr> request = Some \<lparr> url = Some ''https://example.com/go?to=https://other.org/page'',
                         http_method = Some ''GET'' \<rparr>,
       response = None, timings = None, time = None \<rparr>) = ''other.org''"
  by code_simp



lemma resource_types_distinct: "distinct resource_types"
  by (simp add: resource_types_def type_image_def type_font_def type_json_def
      type_video_def type_other_def)

text \<open>
  Claim C6. The classifier is total: for every URL and every content type, the empty
  string and \<^verbatim>\<open>None\<close> included, it returns one of the eight resource type labels, which
  are pairwise different.
\<close>

theorem get_resource_type_total:
  "get_resource_type u content_type \<in> set resource_types
   \<and> distinct resource_types \<and> length resource_types = 8"
  by (simp add: get_resource_type_def resource_types_def Let_def resource_types_distinct
      type_image_def type_font_def type_json_def type_video_def type_other_def)
text \<open>
  Claim C7. The rules are independent. Take two summaries that hold the same value for
  every metric but the one of a rule \<open>r\<close>, the first with a number not above the threshold
  of \<open>r\<close>, the second with a number \<open>b\<close> above it. Then the second output holds the
  finding of \<open>r\<close> for \<open>b\<close> once, the first output has no finding of that kind, and apart
  from it the second output is the first one, in the same order, without the placeholder
  "no evident bottleneck" that stands alone when no rule fires.
\<close>

theorem identify_bottlenecks_monotonic:
  assumes others: "\<forall>name. name \<noteq> rule_metric r \<longrightarrow> metric_value s' name = metric_value s name"
    and below: "metric_value s (rule_metric r) = Some (Num a)" "a \<le> rule_threshold r"
    and above: "metric_value s' (rule_metric r) = Some (Num b)" "rule_threshold r < b"
  shows "filter (\<lambda>f. f \<noteq> rule_finding r b) (identify_bottlenecks df s')
           = filter (\<lambda>f. f \<noteq> no_bottleneck) (identify_bottlenecks df s)
         \<and> count_list (identify_bottlenecks df s') (rule_finding r b) = 1
         \<and> (\<forall>f \<in> set (identify_bottlenecks df s). kind f \<noteq> kind (rule_finding r b))"
proof -
  obtain xs ys where split: "all_rules = xs @ r # ys" and nxs: "r \<notin> set xs" and nys: "r \<notin> set ys"
    using all_rules_complete [of r] all_rules_distinct
    by (metis distinct_append distinct.simps(2) split_list disjoint_iff list.set_intros(1))
  let ?F = "rule_finding r b"
  have agree: "rule_findings s' rs = rule_findings s rs" if "r \<notin> set rs" for rs
  proof (rule rule_findings_agree, rule ballI)
    fix r' assume "r' \<in> set rs"
    with that have "r' \<noteq> r" by auto
    then have "rule_metric r' \<noteq> rule_metric r" using rule_metric_inj by blast
    with others show "metric_value s' (rule_metric r') = metric_value s (rule_metric r')" by simp
  qed
  let ?pre = "rule_findings s xs" and ?post = "rule_findings s ys"
  have r_s: "rule_findings s [r] = []"
    using below by (simp add: rule_findings_def fired_def)
  have r_s': "rule_findings s' [r] = [?F]"
    using above by (simp add: rule_findings_def fired_def)
  have all_s: "rule_findings s all_rules = ?pre @ ?post"
    using rule_findings_append [of s xs "[r] @ ys"] rule_findings_append [of s "[r]" ys] r_s
    by (simp add: split)
  have all_s': "rule_findings s' all_rules = ?pre @ [?F] @ ?post"
    using rule_findings_append [of s' xs "[r] @ ys"] rule_findings_append [of s' "[r]" ys] r_s'
      agree [OF nxs] agree [OF nys]
    by (simp add: split)
  have other_kind: "kind f \<noteq> kind ?F" if "f \<in> set (rule_findings s rs)" "r \<notin> set rs" for f rs
  proof -
    from that(1) obtain r' n where "r' \<in> set rs" "f = rule_finding r' n"
      using rule_findings_cases by blast
    with that(2) show ?thesis using kind_rule_finding_inj by blast
  qed
  have pre_F: "\<forall>f \<in> set ?pre. f \<noteq> ?F" and post_F: "\<forall>f \<in> set ?post. f \<noteq> ?F"
    using other_kind nxs nys by blast+
  have not_none: "\<forall>f \<in> set (rule_findings s rs). f \<noteq> no_bottleneck" for rs
    by (metis rule_findings_cases rule_finding_not_none)
  have out_s': "identify_bottlenecks df s' = ?pre @ [?F] @ ?post"
    by (simp add: identify_bottlenecks_rules all_s')
  have filt_F: "filter (\<lambda>f. f \<noteq> ?F) (?pre @ [?F] @ ?post) = ?pre @ ?post"
    using pre_F post_F by (simp add: filter_id_conv)
  have filt_none: "filter (\<lambda>f. f \<noteq> no_bottleneck) (identify_bottlenecks df s) = ?pre @ ?post"
    using not_none [of xs] not_none [of ys]
    by (simp add: identify_bottlenecks_rules all_s filter_id_conv)
  have count: "count_list (?pre @ [?F] @ ?post) ?F = 1"
  proof -
    have "count_list ?pre ?F = 0" "count_list ?post ?F = 0"
      using pre_F post_F by (auto simp: count_list_0_iff)
    then show ?thesis by simp
  qed
  have kinds: "\<forall>f \<in> set (identify_bottlenecks df s). kind f \<noteq> kind ?F"
  proof
    fix f assume "f \<in> set (identify_bottlenecks df s)"
    then consider "f = no_bottleneck" | "f \<in> set ?pre" | "f \<in> set ?post"
      by (auto simp: identify_bottlenecks_rules all_s split: if_splits)
    then show "kind f \<noteq> kind ?F"
    proof cases
      case 1
      then show ?thesis using kind_rule_finding_not_none [of r b] by (simp add: no_bottleneck_def)
    next
      case 2
      then show ?thesis using other_kind nxs by blast
    next
      case 3
      then show ?thesis using other_kind nys by blast
    qed
  qed
  show ?thesis
    using filt_F filt_none count kinds by (simp only: out_s' simp_thms)
qed

theorem identify_bottlenecks_monotonic_witness:
  "filter (\<lambda>f. f \<noteq> requests_finding 85)
     (identify_bottlenecks \<lparr> columns = [], rows = [] \<rparr>
        [(metric_total_requests, Num 85), (metric_slow, Num 0), (metric_errors, Num 0),
         (metric_avg_time, Num 200), (key_fcp, Str not_captured)])
   = filter (\<lambda>f. f \<noteq> no_bottleneck)
     (identify_bottlenecks \<lparr> columns = [], rows = [] \<rparr>
        [(metric_total_requests, Num 50), (metric_slow, Num 0), (metric_errors, Num 0),
         (metric_avg_time, Num 200), (key_fcp, Str not_captured)])
   \<and> count_list
     (identify_bottlenecks \<lparr> columns = [], rows = [] \<rparr>
        [(metric_total_requests, Num 85), (metric_slow, Num 0), (metric_errors, Num 0),
         (metric_avg_time, Num 200), (key_fcp, Str not_captured)])
     (requests_finding 85) = 1"
proof -
  let ?s' = "[(metric_total_requests, Num 85), (metric_slow, Num 0), (metric_errors, Num 0),
         (metric_avg_time, Num 200), (key_fcp, Str not_captured)]"
  let ?s = "[(metric_total_requests, Num 50), (metric_slow, Num 0), (metric_errors, Num 0),
         (metric_avg_time, Num 200), (key_fcp, Str not_captured)]"
  have others: "\<forall>name. name \<noteq> rule_metric RequestsRule \<longrightarrow>
      metric_value ?s' name = metric_value ?s name"
    by (simp add: metric_value_def dict_zip_def)
  have below: "metric_value ?s (rule_metric RequestsRule) = Some (Num 50)"
    "(50 :: number) \<le> rule_threshold RequestsRule"
    by (simp_all add: metric_value_def dict_zip_def metric_names)
  have above: "metric_value ?s' (rule_metric RequestsRule) = Some (Num 85)"
    "rule_threshold RequestsRule < (85 :: number)"
    by (simp_all add: metric_value_def dict_zip_def metric_names)
  show ?thesis
    using identify_bottlenecks_monotonic [OF others below above, of "\<lparr> columns = [], rows = [] \<rparr>"]
    by simp
qed


text \<open>
  Claim C9. When the summary holds 0 slow resources, at most 80 requests, 0 error
  requests, a mean time of at most 300 and an FCP that is a text or a number of at most
  1800, the analysis returns one finding, the one of the kind "no evident bottleneck".
  A finding of that kind is only returned alone.
\<close>

theorem no_bottleneck_within_thresholds:
  "(dict_get (dict_zip s) metric_slow (Num 0) = Num 0
    \<and> (\<exists>t. dict_get (dict_zip s) metric_total_requests (Num 0) = Num t \<and> t \<le> 80)
    \<and> dict_get (dict_zip s) metric_errors (Num 0) = Num 0
    \<and> (\<exists>a. dict_get (dict_zip s) metric_avg_time (Num 0) = Num a \<and> a \<le> 300)
    \<and> ((\<exists>x. dict_get (dict_zip s) key_fcp (Str not_captured) = Str x)
       \<or> (\<exists>n. dict_get (dict_zip s) key_fcp (Str not_captured) = Num n \<and> n \<le> 1800))
    \<longrightarrow> identify_bottlenecks df s = [no_bottleneck])
   \<and> ((\<exists>f \<in> set (identify_bottlenecks df s). kind f = kind_none)
        \<longrightarrow> identify_bottlenecks df s = [no_bottleneck])"
proof (intro conjI impI)
  assume within:
    "dict_get (dict_zip s) metric_slow (Num 0) = Num 0
    \<and> (\<exists>t. dict_get (dict_zip s) metric_total_requests (Num 0) = Num t \<and> t \<le> 80)
    \<and> dict_get (dict_zip s) metric_errors (Num 0) = Num 0
    \<and> (\<exists>a. dict_get (dict_zip s) metric_avg_time (Num 0) = Num a \<and> a \<le> 300)
    \<and> ((\<exists>x. dict_get (dict_zip s) key_fcp (Str not_captured) = Str x)
       \<or> (\<exists>n. dict_get (dict_zip s) key_fcp (Str not_captured) = Num n \<and> n \<le> 1800))"
  have slow: "fired SlowRule (metric_value s metric_slow) = []"
    using within by (auto simp: metric_value_get fired_def split: option.splits)
  have requests: "fired RequestsRule (metric_value s metric_total_requests) = []"
    using within by (auto simp: metric_value_get fired_def split: option.splits)
  have errors: "fired ErrorsRule (metric_value s metric_errors) = []"
    using within by (auto simp: metric_value_get fired_def split: option.splits)
  have avg: "fired AvgTimeRule (metric_value s metric_avg_time) = []"
    using within by (auto simp: metric_value_get fired_def split: option.splits)
  have fcp: "fired FcpRule (metric_value s key_fcp) = []"
    using within by (auto simp: metric_value_get fired_def split: option.splits)
  show "identify_bottlenecks df s = [no_bottleneck]"
    by (simp add: identify_bottlenecks_fired slow requests errors avg fcp)
next
  assume "\<exists>f \<in> set (identify_bottlenecks df s). kind f = kind_none"
  then show "identify_bottlenecks df s = [no_bottleneck]"
    using kind_none_only by blast
qed

theorem no_bottleneck_within_thresholds_witness:
  "identify_bottlenecks \<lparr> columns = [], rows = [] \<rparr>
     [(metric_total_requests, Num 50), (metric_slow, Num 0), (metric_errors, Num 0),
      (metric_avg_time, Num 200), (key_fcp, Str not_captured)] = [no_bottleneck]"
proof -
  let ?s = "[(metric_total_requests, Num 50), (metric_slow, Num 0), (metric_errors, Num 0),
      (metric_avg_time, Num 200), (key_fcp, Str not_captured)]"
  have "dict_get (dict_zip ?s) metric_slow (Num 0) = Num 0
    \<and> (\<exists>t. dict_get (dict_zip ?s) metric_total_requests (Num 0) = Num t \<and> t \<le> 80)
    \<and> dict_get (dict_zip ?s) metric_errors (Num 0) = Num 0
    \<and> (\<exists>a. dict_get (dict_zip ?s) metric_avg_time (Num 0) = Num a \<and> a \<le> 300)
    \<and> ((\<exists>x. dict_get (dict_zip ?s) key_fcp (Str not_captured) = Str x)
       \<or> (\<exists>n. dict_get (dict_zip ?s) key_fcp (Str not_captured) = Num n \<and> n \<le> 1800))"
    by (simp add: dict_get_def dict_zip_def metric_names)
  with no_bottleneck_within_thresholds [of ?s "\<lparr> columns = [], rows = [] \<rparr>"]
  show ?thesis by blast
qed

text \<open>
  Claim C10. When the summary holds a text for the metric of one of the rules 1 to 4, the
  analysis returns what it returns for the summary that holds 0 there and is otherwise
  the same: the rule does not fire, no finding of its kind is returned, and the list of
  findings is not empty.
\<close>

theorem string_metric_counts_as_zero:
  assumes rule14: "r \<noteq> FcpRule"
    and str: "metric_value s (rule_metric r) = Some (Str x)"
    and zero: "metric_value s0 (rule_metric r) = Some (Num 0)"
    and others: "\<forall>name. name \<noteq> rule_metric r \<longrightarrow> metric_value s0 name = metric_value s name"
  shows "identify_bottlenecks df s = identify_bottlenecks df s0
         \<and> (\<forall>f \<in> set (identify_bottlenecks df s). kind f \<noteq> kind (rule_finding r n))
         \<and> identify_bottlenecks df s \<noteq> []"
proof -
  have same: "rule_findings s0 all_rules = rule_findings s all_rules"
  proof (rule rule_findings_same, rule ballI)
    fix r' assume "r' \<in> set all_rules"
    show "fired r' (metric_value s0 (rule_metric r')) = fired r' (metric_value s (rule_metric r'))"
    proof (cases "r' = r")
      case True
      then show ?thesis
        using str zero rule_threshold_nonneg [of r] by (simp add: fired_def)
    next
      case False
      then have "rule_metric r' \<noteq> rule_metric r" using rule_metric_inj by blast
      with others show ?thesis by simp
    qed
  qed
  then have eq: "identify_bottlenecks df s = identify_bottlenecks df s0"
    by (simp add: identify_bottlenecks_rules)
  have kinds: "\<forall>f \<in> set (identify_bottlenecks df s). kind f \<noteq> kind (rule_finding r n)"
  proof
    fix f assume f: "f \<in> set (identify_bottlenecks df s)"
    show "kind f \<noteq> kind (rule_finding r n)"
    proof (cases "f = no_bottleneck")
      case True
      then show ?thesis
        using kind_rule_finding_not_none [of r n] by (simp add: no_bottleneck_def)
    next
      case False
      with f have "f \<in> set (rule_findings s all_rules)"
        by (auto simp: identify_bottlenecks_rules split: if_splits)
      then obtain r' n' where r': "f = rule_finding r' n'"
        "metric_value s (rule_metric r') = Some (Num n')"
        using rule_findings_cases by blast
      with str have "r' \<noteq> r" by auto
      with r'(1) show ?thesis using kind_rule_finding_inj by blast
    qed
  qed
  have nonempty: "identify_bottlenecks df s \<noteq> []"
    by (simp add: identify_bottlenecks_rules)
  show ?thesis
    using eq kinds nonempty by blast
qed

theorem string_metric_counts_as_zero_witness:
  "identify_bottlenecks \<lparr> columns = [], rows = [] \<rparr>
     [(metric_total_requests, Num 85), (metric_avg_time, Str unavailable)]
   = identify_bottlenecks \<lparr> columns = [], rows = [] \<rparr>
     [(metric_total_requests, Num 85), (metric_avg_time, Num 0)]
   \<and> identify_bottlenecks \<lparr> columns = [], rows = [] \<rparr>
     [(metric_total_requests, Num 85), (metric_avg_time, Str unavailable)] \<noteq> []"
proof -
  let ?s = "[(metric_total_requests, Num 85), (metric_avg_time, Str unavailable)]"
  let ?zero = "[(metric_total_requests, Num 85), (metric_avg_time, Num 0)]"
  have rule14: "AvgTimeRule \<noteq> FcpRule"
    by simp
  have str: "metric_value ?s (rule_metric AvgTimeRule) = Some (Str unavailable)"
    and zero: "metric_value ?zero (rule_metric AvgTimeRule) = Some (Num 0)"
    by (simp_all add: metric_value_def dict_zip_def)
  have others: "\<forall>name. name \<noteq> rule_metric AvgTimeRule \<longrightarrow>
      metric_value ?zero name = metric_value ?s name"
    by (simp add: metric_value_def dict_zip_def)
  show ?thesis
    using string_metric_counts_as_zero [OF rule14 str zero others, of "\<lparr> columns = [], rows = [] \<rparr>"]
    by blast
qed

end
